theory Spec2Isabelle
  imports Main "HOL-Library.Word" "HOL-Library.Multiset" "HOL-Library.Char_ord" "HOL-Library.List_Lexorder"
begin

unbundle bit_operations_syntax

section \<open>Python values and exceptions\<close>

text \<open>
  The Python values that the modelled functions return or compare where the
  source mixes types: \<open>firstMatchInList\<close> returns an item or \<open>False\<close>, and
  \<open>VerStruct.addon_version\<close> is a tuple of ints or of strings.
\<close>

datatype pyval = PNone | PBool bool | PInt int | PStr string

text \<open>Every \<open>raise\<close>, failed \<open>assert\<close> and library exception of the source is a value.\<close>

datatype error =
    AssertionError string
  | ValueError
  | TypeError
  | IndexError
  | KeyError
  | AttributeError
  | Exception string
  | MemoryFault

definition bindE :: "error + 'a \<Rightarrow> ('a \<Rightarrow> error + 'b) \<Rightarrow> error + 'b" where
  "bindE m f = (case m of Inl e \<Rightarrow> Inl e | Inr x \<Rightarrow> f x)"

section \<open>xplane_helpers.py: firstMatchInList\<close>

text \<open>
  \<open>pattern.fullmatch(item)\<close> yields a match object (always truthy) or \<open>None\<close>;
  the compiled pattern is modelled by that truth value, a predicate on strings.
  The loop runs over the indices \<open>range(0, len(items))\<close>.
\<close>

function firstMatchInList_loop :: "(string \<Rightarrow> bool) \<Rightarrow> string list \<Rightarrow> nat \<Rightarrow> pyval" where
  "firstMatchInList_loop fullmatch items i =
     (if i < length items
      then (if fullmatch (items ! i) then PStr (items ! i)
            else firstMatchInList_loop fullmatch items (Suc i))
      else PBool False)"
  by pat_completeness auto
termination
  by (relation "measure (\<lambda>(fullmatch, items, i). length items - i)") auto

declare firstMatchInList_loop.simps [simp del]

definition firstMatchInList :: "(string \<Rightarrow> bool) \<Rightarrow> string list \<Rightarrow> pyval" where
  "firstMatchInList fullmatch items = firstMatchInList_loop fullmatch items 0"

section \<open>xplane_helpers.py: XPlaneLogger\<close>

text \<open>
  A buffered message is the dict \<open>{'type', 'message', 'context'}\<close>. A transport is
  the dict \<open>{'fn', 'types'}\<close>; its function writes to a sink (console, text block,
  file), modelled as a transformer of the sink state \<open>'w\<close>, which is kept apart
  from the logger's own two lists.
\<close>

record 'c log_message =
  type :: string
  message :: string
  "context" :: 'c

record ('c, 'w) transport =
  fn :: "string \<Rightarrow> string \<Rightarrow> 'c \<Rightarrow> 'w \<Rightarrow> 'w"
  types :: "string list"

record ('c, 'w) XPlaneLogger =
  transports :: "('c, 'w) transport list"
  messages :: "'c log_message list"

definition XPlaneLogger_init :: "('c, 'w) XPlaneLogger" where
  "XPlaneLogger_init = \<lparr>transports = [], messages = []\<rparr>"

definition default_messageTypes :: "string list" where
  "default_messageTypes = [''error'', ''warning'', ''info'', ''success'']"

definition addTransport ::
  "(string \<Rightarrow> string \<Rightarrow> 'c \<Rightarrow> 'w \<Rightarrow> 'w) \<Rightarrow> string list \<Rightarrow> ('c, 'w) XPlaneLogger \<Rightarrow> ('c, 'w) XPlaneLogger" where
  "addTransport transport messageTypes self =
     self\<lparr>transports := transports self @ [\<lparr>fn = transport, types = messageTypes\<rparr>]\<rparr>"

definition clearTransports :: "('c, 'w) XPlaneLogger \<Rightarrow> ('c, 'w) XPlaneLogger" where
  "clearTransports self = self\<lparr>transports := []\<rparr>"

definition clearMessages :: "('c, 'w) XPlaneLogger \<Rightarrow> ('c, 'w) XPlaneLogger" where
  "clearMessages self = self\<lparr>messages := []\<rparr>"

text \<open>The loop \<open>for transport in self.transports\<close> of \<open>log\<close>.\<close>

fun log_transports ::
  "('c, 'w) transport list \<Rightarrow> string \<Rightarrow> string \<Rightarrow> 'c \<Rightarrow> 'w \<Rightarrow> 'w" where
  "log_transports [] messageType msg ctx w = w"
| "log_transports (transport # rest) messageType msg ctx w =
     log_transports rest messageType msg ctx
       (if messageType \<in> set (types transport) then fn transport messageType msg ctx w else w)"

definition log ::
  "string \<Rightarrow> string \<Rightarrow> 'c \<Rightarrow> ('c, 'w) XPlaneLogger \<times> 'w \<Rightarrow> ('c, 'w) XPlaneLogger \<times> 'w" where
  "log messageType msg ctx = (\<lambda>(self, w).
     (self\<lparr>messages := messages self @ [\<lparr>type = messageType, message = msg, context = ctx\<rparr>]\<rparr>,
      log_transports (transports self) messageType msg ctx w))"

definition error :: "string \<Rightarrow> 'c \<Rightarrow> ('c, 'w) XPlaneLogger \<times> 'w \<Rightarrow> ('c, 'w) XPlaneLogger \<times> 'w" where
  "error msg ctx = log ''error'' msg ctx"

definition warn :: "string \<Rightarrow> 'c \<Rightarrow> ('c, 'w) XPlaneLogger \<times> 'w \<Rightarrow> ('c, 'w) XPlaneLogger \<times> 'w" where
  "warn msg ctx = log ''warning'' msg ctx"

definition info :: "string \<Rightarrow> 'c \<Rightarrow> ('c, 'w) XPlaneLogger \<times> 'w \<Rightarrow> ('c, 'w) XPlaneLogger \<times> 'w" where
  "info msg ctx = log ''info'' msg ctx"

definition success :: "string \<Rightarrow> 'c \<Rightarrow> ('c, 'w) XPlaneLogger \<times> 'w \<Rightarrow> ('c, 'w) XPlaneLogger \<times> 'w" where
  "success msg ctx = log ''success'' msg ctx"

text \<open>\<open>findOfType\<close> collects into a fresh list; \<open>hasOfType\<close> returns at the first hit.\<close>

fun findOfType_loop ::
  "'c log_message list \<Rightarrow> string \<Rightarrow> 'c log_message list \<Rightarrow> 'c log_message list" where
  "findOfType_loop [] messageType found = found"
| "findOfType_loop (m # rest) messageType found =
     findOfType_loop rest messageType (if type m = messageType then found @ [m] else found)"

definition findOfType :: "('c, 'w) XPlaneLogger \<Rightarrow> string \<Rightarrow> 'c log_message list" where
  "findOfType self messageType = findOfType_loop (messages self) messageType []"

fun hasOfType_loop :: "'c log_message list \<Rightarrow> string \<Rightarrow> bool" where
  "hasOfType_loop [] messageType = False"
| "hasOfType_loop (m # rest) messageType =
     (if type m = messageType then True else hasOfType_loop rest messageType)"

definition hasOfType :: "('c, 'w) XPlaneLogger \<Rightarrow> string \<Rightarrow> bool" where
  "hasOfType self messageType = hasOfType_loop (messages self) messageType"

definition findErrors :: "('c, 'w) XPlaneLogger \<Rightarrow> 'c log_message list" where
  "findErrors self = findOfType self ''error''"

definition hasErrors :: "('c, 'w) XPlaneLogger \<Rightarrow> bool" where
  "hasErrors self = hasOfType self ''error''"

definition findWarnings :: "('c, 'w) XPlaneLogger \<Rightarrow> 'c log_message list" where
  "findWarnings self = findOfType self ''warning''"

definition hasWarnings :: "('c, 'w) XPlaneLogger \<Rightarrow> bool" where
  "hasWarnings self = hasOfType self ''warning''"

definition findInfos :: "('c, 'w) XPlaneLogger \<Rightarrow> 'c log_message list" where
  "findInfos self = findOfType self ''info''"

section \<open>xplane_249_material_converter.py: texture-face modes\<close>

text \<open>The namedtuple \<open>_TexFaceModes\<close>: nine booleans, true when the button is pressed.\<close>

record TexFaceModes =
  TEX :: bool
  TILES :: bool
  LIGHT :: bool
  INVISIBLE :: bool
  DYNAMIC :: bool
  TWOSIDE :: bool
  SHADOW :: bool
  ALPHA :: bool
  CLIP :: bool

text \<open>
  The ctypes structures, with the field widths the source declares: \<open>c_short\<close> is a
  16-bit word read as a signed Python int, \<open>c_char\<close> one byte, \<open>c_int\<close> 32 bits.
  A pointer field is \<open>None\<close> when it is NULL and otherwise holds the array it points
  to. Of \<open>Mesh\<close> only the three fields the function reads are kept.
\<close>

record MPoly =
  loopstart :: "32 word"
  totloop :: "32 word"
  mat_nr :: "16 word"
  mp_flag :: "8 word"
  mp_pad :: "8 word"

record MTexPoly =
  tpage :: nat
  flag :: "8 word"
  transp :: "8 word"
  mode :: "16 word"
  tile :: "16 word"
  pad :: "16 word"

record Mesh =
  mpoly :: "MPoly list option"
  mtpoly :: "MTexPoly list option"
  totpoly :: "32 word"

text \<open>What the function reads of \<open>obj\<close>: its name, its type and the mesh at \<open>obj.data.as_pointer()\<close>.\<close>

record Object =
  name :: string
  obj_type :: string
  data :: Mesh

text \<open>\<open>bool(n)\<close> of a Python int.\<close>

definition py_bool :: "int \<Rightarrow> bool" where
  "py_bool n = (n \<noteq> 0)"

text \<open>
  The body of the loop up to the construction of the tuple: \<open>mtpoly_current.mode\<close>
  is the signed value of the short, \<open>int.from_bytes(mtpoly_current.transp, sys.byteorder)\<close>
  the unsigned value of the single byte.
\<close>

definition tf_modes_of :: "MTexPoly \<Rightarrow> TexFaceModes" where
  "tf_modes_of mtpoly_current =
     (let mtpoly_mode = sint (mode mtpoly_current);
          mtpoly_transp = uint (transp mtpoly_current)
      in \<lparr>TEX = py_bool (mtpoly_mode AND push_bit 2 1),
          TILES = py_bool (mtpoly_mode AND push_bit 7 1),
          LIGHT = py_bool (mtpoly_mode AND push_bit 4 1),
          INVISIBLE = py_bool (mtpoly_mode AND push_bit 10 1),
          DYNAMIC = py_bool (mtpoly_mode AND push_bit 0 1),
          TWOSIDE = py_bool (mtpoly_mode AND push_bit 9 1),
          SHADOW = py_bool (mtpoly_mode AND push_bit 13 1),
          ALPHA = py_bool (mtpoly_transp AND push_bit 1 1),
          CLIP = py_bool (mtpoly_transp AND push_bit 2 1)\<rparr>)"

text \<open>
  \<open>ptr[:n]\<close> on a ctypes pointer: no element is read when \<open>n \<le> 0\<close>; reading through
  NULL raises \<open>ValueError\<close>; reading past the array the pointer refers to is a memory
  fault (the interpreter does not check it).
\<close>

definition ptr_slice :: "'a list option \<Rightarrow> int \<Rightarrow> error + 'a list" where
  "ptr_slice p n =
     (if n \<le> 0 then Inr []
      else (case p of
              None \<Rightarrow> Inl ValueError
            | Some xs \<Rightarrow> if nat n \<le> length xs then Inr (take (nat n) xs) else Inl MemoryFault))"

text \<open>
  \<open>poly_c_info\<close> is a \<open>defaultdict(list)\<close>; Python dicts keep insertion order, and the
  caller iterates over it, so it is an association list. \<open>dd_append k v d\<close> is
  \<open>d[k].append(v)\<close>.
\<close>

fun dd_append :: "'k \<Rightarrow> 'v \<Rightarrow> ('k \<times> 'v list) list \<Rightarrow> ('k \<times> 'v list) list" where
  "dd_append k v [] = [(k, [v])]"
| "dd_append k v ((k', vs) # d) =
     (if k' = k then (k', vs @ [v]) # d else (k', vs) # dd_append k v d)"

text \<open>The loop over \<open>enumerate(zip(...))\<close>, with \<open>idx\<close> the running index.\<close>

fun tf_modes_loop ::
  "nat \<Rightarrow> (MPoly \<times> MTexPoly) list \<Rightarrow> (TexFaceModes \<times> nat list) list \<Rightarrow> (TexFaceModes \<times> nat list) list" where
  "tf_modes_loop idx [] poly_c_info = poly_c_info"
| "tf_modes_loop idx ((mpoly_current, mtpoly_current) # rest) poly_c_info =
     tf_modes_loop (Suc idx) rest (dd_append (tf_modes_of mtpoly_current) idx poly_c_info)"

definition get_tf_modes_from_ctypes :: "Object \<Rightarrow> error + (TexFaceModes \<times> nat list) list" where
  "get_tf_modes_from_ctypes obj =
     (if obj_type obj \<noteq> ''MESH'' then Inl (AssertionError (name obj @ '' is not a MESH type''))
      else (let mesh = data obj in
        bindE (ptr_slice (mpoly mesh) (sint (totpoly mesh))) (\<lambda>mpolys.
        bindE (ptr_slice (mtpoly mesh) (sint (totpoly mesh))) (\<lambda>mtpolys.
        Inr (tf_modes_loop 0 (zip mpolys mtpolys) [])))))"

text \<open>
  For the proofs: the indices, counted from \<open>idx\<close>, of the polygons of \<open>ps\<close> whose
  decoded combination is \<open>k\<close>.
\<close>

definition idxs_with :: "TexFaceModes \<Rightarrow> nat \<Rightarrow> (MPoly \<times> MTexPoly) list \<Rightarrow> nat list" where
  "idxs_with k idx ps = map fst (filter (\<lambda>(j, p). tf_modes_of (snd p) = k) (zip [idx..<idx + length ps] ps))"

section \<open>xplane_helpers.py: VerStruct\<close>

text \<open>
  The module \<open>xplane_constants\<close> is not among the sources; the four constants
  that \<open>VerStruct\<close> uses are taken as a parameter.
\<close>

record xplane_constants =
  BUILD_TYPE_DEV :: string
  BUILD_TYPE_LEGACY :: string
  BUILD_TYPES :: "string list"
  BUILD_NUMBER_NONE :: string

text \<open>
  \<open>addon_version\<close> is always a tuple here, of any length and of ints or strings (the
  modern branch of \<open>parse_version\<close> stores the pieces of a split string, unconverted).
\<close>

record VerStruct =
  addon_version :: "pyval list"
  build_type :: string
  build_type_version :: int
  data_model_version :: int
  build_number :: string

definition VerStruct_init :: "xplane_constants \<Rightarrow> VerStruct" where
  "VerStruct_init xc =
     \<lparr>addon_version = [PInt 0, PInt 0, PInt 0],
      build_type = BUILD_TYPE_DEV xc,
      build_type_version = 0,
      data_model_version = 0,
      build_number = BUILD_NUMBER_NONE xc\<rparr>"

text \<open>
  \<open><=\<close> and \<open>>=\<close> between two Python values: defined on two ints and on two
  strings, \<open>TypeError\<close> otherwise. Tuples compare at the first position where they
  differ, and by length if there is none.
\<close>

fun py_le :: "pyval \<Rightarrow> pyval \<Rightarrow> error + bool" where
  "py_le (PInt a) (PInt b) = Inr (a \<le> b)"
| "py_le (PStr a) (PStr b) = Inr (a \<le> b)"
| "py_le x y = Inl TypeError"

fun py_ge :: "pyval \<Rightarrow> pyval \<Rightarrow> error + bool" where
  "py_ge (PInt a) (PInt b) = Inr (a \<ge> b)"
| "py_ge (PStr a) (PStr b) = Inr (a \<ge> b)"
| "py_ge x y = Inl TypeError"

fun tuple_le :: "pyval list \<Rightarrow> pyval list \<Rightarrow> error + bool" where
  "tuple_le [] ys = Inr True"
| "tuple_le (x # xs) [] = Inr False"
| "tuple_le (x # xs) (y # ys) = (if x = y then tuple_le xs ys else py_le x y)"

fun tuple_ge :: "pyval list \<Rightarrow> pyval list \<Rightarrow> error + bool" where
  "tuple_ge xs [] = Inr True"
| "tuple_ge [] (y # ys) = Inr False"
| "tuple_ge (x # xs) (y # ys) = (if x = y then tuple_ge xs ys else py_ge x y)"

text \<open>\<open>list.index(x)\<close>: the first position of \<open>x\<close>, \<open>ValueError\<close> if there is none.\<close>

fun index_from :: "nat \<Rightarrow> 'a list \<Rightarrow> 'a \<Rightarrow> error + int" where
  "index_from i [] x = Inl ValueError"
| "index_from i (y # ys) x = (if y = x then Inr (int i) else index_from (Suc i) ys x)"

definition list_index :: "'a list \<Rightarrow> 'a \<Rightarrow> error + int" where
  "list_index xs x = index_from 0 xs x"

text \<open>
  \<open>VerStruct.cmp\<close> is three blocks of nested \<open>if\<close>s, each returning or falling
  through to the next (\<open>None\<close>), and a final \<open>raise\<close>.
\<close>

definition cmp_eq_block :: "VerStruct \<Rightarrow> VerStruct \<Rightarrow> bool \<Rightarrow> bool \<Rightarrow> int option" where
  "cmp_eq_block lhs rhs include_data_model_version include_build_number =
     (if addon_version lhs = addon_version rhs then
        if build_type lhs = build_type rhs then
          if build_type_version lhs = build_type_version rhs then
            (let is_data_model_eq = (data_model_version lhs = data_model_version rhs);
                 is_build_num_eq = (build_number lhs = build_number rhs)
             in if include_data_model_version \<and> is_data_model_eq \<and> include_build_number \<and> is_build_num_eq
                then Some 0
                else if include_data_model_version \<and> is_data_model_eq then Some 0
                else if include_build_number \<and> is_build_num_eq then Some 0
                else Some 0)
          else None
        else None
      else None)"

definition cmp_lt_block ::
  "xplane_constants \<Rightarrow> VerStruct \<Rightarrow> VerStruct \<Rightarrow> bool \<Rightarrow> bool \<Rightarrow> error + int option" where
  "cmp_lt_block xc lhs rhs include_data_model_version include_build_number =
     bindE (tuple_le (addon_version lhs) (addon_version rhs)) (\<lambda>version_le.
     if version_le then
       bindE (list_index (BUILD_TYPES xc) (build_type lhs)) (\<lambda>lhs_index.
       bindE (list_index (BUILD_TYPES xc) (build_type rhs)) (\<lambda>rhs_index.
       if lhs_index \<le> rhs_index then
         if build_type_version lhs \<le> build_type_version rhs then
           (let is_data_model_lt = (data_model_version lhs < data_model_version rhs);
                is_build_num_lt = (build_number lhs < build_number rhs)
            in if include_data_model_version \<and> is_data_model_lt \<and> include_build_number \<and> is_build_num_lt
               then Inr (Some (- 1))
               else if include_data_model_version \<and> is_data_model_lt then Inr (Some (- 1))
               else if include_build_number \<and> is_build_num_lt then Inr (Some (- 1))
               else Inr (Some (- 1)))
         else Inr None
       else Inr None))
     else Inr None)"

definition cmp_gt_block ::
  "xplane_constants \<Rightarrow> VerStruct \<Rightarrow> VerStruct \<Rightarrow> bool \<Rightarrow> bool \<Rightarrow> error + int option" where
  "cmp_gt_block xc lhs rhs include_data_model_version include_build_number =
     bindE (tuple_ge (addon_version lhs) (addon_version rhs)) (\<lambda>version_ge.
     if version_ge then
       bindE (list_index (BUILD_TYPES xc) (build_type lhs)) (\<lambda>lhs_index.
       bindE (list_index (BUILD_TYPES xc) (build_type rhs)) (\<lambda>rhs_index.
       if lhs_index \<ge> rhs_index then
         if build_type_version lhs \<ge> build_type_version rhs then
           (let is_data_model_gt = (data_model_version lhs > data_model_version rhs);
                is_build_num_gt = (build_number lhs > build_number rhs)
            in if include_data_model_version \<and> is_data_model_gt \<and> include_build_number \<and> is_build_num_gt
               then Inr (Some 1)
               else if include_data_model_version \<and> is_data_model_gt then Inr (Some 1)
               else if include_build_number \<and> is_build_num_gt then Inr (Some 1)
               else Inr (Some 1))
         else Inr None
       else Inr None))
     else Inr None)"

definition cmp ::
  "xplane_constants \<Rightarrow> VerStruct \<Rightarrow> VerStruct \<Rightarrow> bool \<Rightarrow> bool \<Rightarrow> error + int" where
  "cmp xc lhs rhs include_data_model_version include_build_number =
     (case cmp_eq_block lhs rhs include_data_model_version include_build_number of
        Some r \<Rightarrow> Inr r
      | None \<Rightarrow>
          bindE (cmp_lt_block xc lhs rhs include_data_model_version include_build_number) (\<lambda>lt.
          case lt of
            Some r \<Rightarrow> Inr r
          | None \<Rightarrow>
              bindE (cmp_gt_block xc lhs rhs include_data_model_version include_build_number) (\<lambda>gt.
              case gt of
                Some r \<Rightarrow> Inr r
              | None \<Rightarrow> Inl (Exception ''cmp function not implemented properly''))))"

text \<open>Characters and numerals of the strings that are parsed.\<close>

definition is_digit :: "char \<Rightarrow> bool" where
  "is_digit c = (c \<in> set ''0123456789'')"

definition is_digit_1_9 :: "char \<Rightarrow> bool" where
  "is_digit_1_9 c = (c \<in> set ''123456789'')"

definition is_space :: "char \<Rightarrow> bool" where
  "is_space c = ((of_char c :: nat) \<in> set [9, 10, 11, 12, 13, 28, 29, 30, 31, 32, 133, 160])"

definition digit_value :: "char \<Rightarrow> int" where
  "digit_value c = int (of_char c) - 48"

definition int_of_digits :: "string \<Rightarrow> int" where
  "int_of_digits ds = foldl (\<lambda>acc c. 10 * acc + digit_value c) 0 ds"

definition strip :: "string \<Rightarrow> string" where
  "strip s = rev (dropWhile is_space (rev (dropWhile is_space s)))"

text \<open>
  \<open>int(v)\<close> on a string: surrounding whitespace is dropped, one sign is allowed,
  and what remains must be a non-empty run of decimal digits, otherwise
  \<open>ValueError\<close>. Strings are taken over the characters below 256, where the decimal
  digits are \<open>0\<close> to \<open>9\<close>; underscores between digits, which later versions of
  Python accept, are not.
\<close>

definition py_int :: "string \<Rightarrow> error + int" where
  "py_int v =
     (let t = strip v;
          negative = (t \<noteq> [] \<and> hd t = CHR ''-'');
          ds = (if t \<noteq> [] \<and> (hd t = CHR ''-'' \<or> hd t = CHR ''+'') then tl t else t)
      in if ds \<noteq> [] \<and> list_all is_digit ds
         then Inr (if negative then - int_of_digits ds else int_of_digits ds)
         else Inl ValueError)"

text \<open>\<open>s.split(sep)\<close> for a one-character separator.\<close>

fun split_on :: "char \<Rightarrow> string \<Rightarrow> string list" where
  "split_on sep [] = [[]]"
| "split_on sep (c # cs) =
     (if c = sep then [] # split_on sep cs
      else (case split_on sep cs of
              [] \<Rightarrow> [[c]]
            | piece # pieces \<Rightarrow> (c # piece) # pieces))"

text \<open>The list comprehension \<open>[int(v) for v in ...]\<close>: the first failure ends it.\<close>

fun map_py_int :: "string list \<Rightarrow> error + int list" where
  "map_py_int [] = Inr []"
| "map_py_int (v # vs) =
     bindE (py_int v) (\<lambda>n. bindE (map_py_int vs) (\<lambda>ns. Inr (n # ns)))"

text \<open>
  The regular expressions of \<open>parse_version\<close> and \<open>is_valid\<close>, matched from the start
  of the string as \<open>re.match\<close> does. Each greedy run is followed in the pattern by a
  character outside the run's class (or by the end of the pattern), and no
  alternative of the build type is a prefix of another, so matching never has to
  back up: a run takes as many characters as it can. Each step returns what it
  matched and the rest of the string.
\<close>

definition match_run1 :: "(char \<Rightarrow> bool) \<Rightarrow> string \<Rightarrow> (string \<times> string) option" where
  "match_run1 cls s =
     (if takeWhile cls s = [] then None else Some (takeWhile cls s, dropWhile cls s))"

definition match_count :: "nat \<Rightarrow> string \<Rightarrow> (string \<times> string) option" where
  "match_count n s =
     (if n \<le> length s \<and> list_all is_digit (take n s) then Some (take n s, drop n s) else None)"

definition match_literal :: "string \<Rightarrow> string \<Rightarrow> (string \<times> string) option" where
  "match_literal lit s =
     (if take (length lit) s = lit then Some (lit, drop (length lit) s) else None)"

fun match_alternatives :: "string list \<Rightarrow> string \<Rightarrow> (string \<times> string) option" where
  "match_alternatives [] s = None"
| "match_alternatives (alt # alts) s =
     (case match_literal alt s of
        Some r \<Rightarrow> Some r
      | None \<Rightarrow> match_alternatives alts s)"

text \<open>\<open>(\d+\.\d+\.\d+)-(alpha|beta|dev|leg|rc)\.([1-9]+)\<close>, groups 1 to 3.\<close>

definition match_format_str :: "string \<Rightarrow> ((string \<times> string \<times> string) \<times> string) option" where
  "match_format_str s =
     Option.bind (match_run1 is_digit s) (\<lambda>(major, s1).
     Option.bind (match_literal ''.'' s1) (\<lambda>(d1, s2).
     Option.bind (match_run1 is_digit s2) (\<lambda>(minor, s3).
     Option.bind (match_literal ''.'' s3) (\<lambda>(d2, s4).
     Option.bind (match_run1 is_digit s4) (\<lambda>(revision, s5).
     Option.bind (match_literal ''-'' s5) (\<lambda>(d3, s6).
     Option.bind (match_alternatives [''alpha'', ''beta'', ''dev'', ''leg'', ''rc''] s6) (\<lambda>(group2, s7).
     Option.bind (match_literal ''.'' s7) (\<lambda>(d4, s8).
     Option.bind (match_run1 is_digit_1_9 s8) (\<lambda>(group3, s9).
     Some ((major @ ''.'' @ minor @ ''.'' @ revision, group2, group3), s9))))))))))"

text \<open>The suffix \<open>\+(\d+)\.(\d{14})\<close>, groups 4 and 5.\<close>

definition match_build_suffix :: "string \<Rightarrow> (string \<times> string) option" where
  "match_build_suffix s =
     Option.bind (match_literal ''+'' s) (\<lambda>(d1, s1).
     Option.bind (match_run1 is_digit s1) (\<lambda>(group4, s2).
     Option.bind (match_literal ''.'' s2) (\<lambda>(d2, s3).
     Option.bind (match_count 14 s3) (\<lambda>(group5, s4).
     Some (group4, group5)))))"

text \<open>
  \<open>datetime.datetime(year, month, day, hour, minute, second, tzinfo=timezone.utc)\<close>
  raises \<open>ValueError\<close> unless the fields are in range.
\<close>

definition is_leap :: "int \<Rightarrow> bool" where
  "is_leap year = (year mod 4 = 0 \<and> (year mod 100 \<noteq> 0 \<or> year mod 400 = 0))"

definition days_in_month :: "int \<Rightarrow> int \<Rightarrow> int" where
  "days_in_month year month =
     (if month = 2 then (if is_leap year then 29 else 28)
      else if month \<in> {4, 6, 9, 11} then 30 else 31)"

definition datetime_ok :: "int \<Rightarrow> int \<Rightarrow> int \<Rightarrow> int \<Rightarrow> int \<Rightarrow> int \<Rightarrow> bool" where
  "datetime_ok year month day hour minute second =
     (1 \<le> year \<and> year \<le> 9999 \<and> 1 \<le> month \<and> month \<le> 12
      \<and> 1 \<le> day \<and> day \<le> days_in_month year month
      \<and> 0 \<le> hour \<and> hour \<le> 23 \<and> 0 \<le> minute \<and> minute \<le> 59 \<and> 0 \<le> second \<and> second \<le> 59)"

text \<open>
  The \<open>else\<close> branch at the end of \<open>is_valid\<close>: the build number must start with
  fourteen digits (otherwise \<open>datetime_matches\<close> is \<open>None\<close> and \<open>.groups()\<close> raises
  inside the \<open>try\<close>) that form a date and time; every exception there is caught
  and gives \<open>False\<close>.
\<close>

definition build_number_is_datetime :: "string \<Rightarrow> bool" where
  "build_number_is_datetime bn =
     (case match_count 14 bn of
        None \<Rightarrow> False
      | Some (ds, rest) \<Rightarrow>
          datetime_ok (int_of_digits (take 4 ds))
                      (int_of_digits (take 2 (drop 4 ds)))
                      (int_of_digits (take 2 (drop 6 ds)))
                      (int_of_digits (take 2 (drop 8 ds)))
                      (int_of_digits (take 2 (drop 10 ds)))
                      (int_of_digits (take 2 (drop 12 ds))))"

text \<open>
  \<open>is_valid\<close> returns \<open>True\<close>, \<open>False\<close>, or falls off its end (\<open>None\<close>). In the model
  the four scalar fields have their types by construction, so \<open>types_correct\<close> is
  the length test on the tuple. \<open>list.index\<close> raises \<open>ValueError\<close> for a missing
  element and never returns \<open>-1\<close>.
\<close>

definition is_valid_build :: "xplane_constants \<Rightarrow> VerStruct \<Rightarrow> bool option" where
  "is_valid_build xc self =
     (if (if build_type self = BUILD_TYPE_DEV xc \<or> build_type self = BUILD_TYPE_LEGACY xc
          then (let dev_legacy_fails_reqs = False;
                    dev_legacy_fails_reqs = (dev_legacy_fails_reqs \<or> build_type_version self > 0);
                    dev_legacy_fails_reqs =
                      (dev_legacy_fails_reqs \<or> build_number self \<noteq> BUILD_NUMBER_NONE xc)
                in dev_legacy_fails_reqs)
          else (let build_cycle_fails_reqs = False;
                    build_cycle_fails_reqs = (build_cycle_fails_reqs \<or> build_type_version self \<le> 0)
                in build_cycle_fails_reqs))
      then Some False
      else if build_type self = BUILD_TYPE_LEGACY xc \<and> data_model_version self \<noteq> 0 then Some False
      else if build_type self \<noteq> BUILD_TYPE_LEGACY xc \<and> data_model_version self \<le> 0 then Some False
      else if build_number self = BUILD_NUMBER_NONE xc then Some True
      else Some (build_number_is_datetime (build_number self)))"

definition is_valid :: "xplane_constants \<Rightarrow> VerStruct \<Rightarrow> error + bool option" where
  "is_valid xc self =
     (let types_correct = (length (addon_version self) = 3) in
      if \<not> types_correct then Inl (Exception ''Incorrect types passed into VerStruct'')
      else
        bindE (py_ge (addon_version self ! 0) (PInt 3)) (\<lambda>major_ok.
        if \<not> major_ok then Inr None else
        bindE (py_ge (addon_version self ! 1) (PInt 0)) (\<lambda>minor_ok.
        if \<not> minor_ok then Inr None else
        bindE (py_ge (addon_version self ! 2) (PInt 0)) (\<lambda>revision_ok.
        if \<not> revision_ok then Inr None else
        bindE (list_index (BUILD_TYPES xc) (build_type self)) (\<lambda>build_type_index.
        if build_type_index \<noteq> - 1 then Inr (is_valid_build xc self) else Inr None)))))"

definition parse_version :: "xplane_constants \<Rightarrow> string \<Rightarrow> error + VerStruct option" where
  "parse_version xc version_str =
     (let version_struct = VerStruct_init xc in
      bindE
        (if CHR ''-'' \<in> set version_str then
           (case match_format_str version_str of
              None \<Rightarrow> Inr version_struct
            | Some ((group1, group2, group3), rest) \<Rightarrow>
                (let matched =
                   version_struct\<lparr>addon_version := map PStr (split_on CHR ''.'' group1),
                                  build_type := group2,
                                  build_type_version := int_of_digits group3\<rparr>
                 in if CHR ''+'' \<in> set version_str then
                      (case match_build_suffix rest of
                         None \<Rightarrow> Inr version_struct
                       | Some (group4, group5) \<Rightarrow>
                           Inr (matched\<lparr>data_model_version := int_of_digits group4,
                                        build_number := group5\<rparr>))
                    else Inr matched))
         else
           bindE (map_py_int (split_on CHR ''.'' version_str)) (\<lambda>numbers.
           Inr (version_struct\<lparr>addon_version := map PInt numbers,
                               build_type := BUILD_TYPE_LEGACY xc\<rparr>)))
        (\<lambda>version_struct.
           bindE (is_valid xc version_struct) (\<lambda>valid.
           Inr (if valid = Some True then Some version_struct else None))))"

section \<open>The host and the session\<close>

text \<open>
  Scenes, objects, materials and meshes are data blocks of the host; the code holds
  references to them, modelled as identifiers.
\<close>

type_synonym scene_id = nat
type_synonym object_id = nat
type_synonym material_id = nat
type_synonym mesh_id = nat

text \<open>
  The values assigned to \<open>material.xplane\<close> properties; \<open>XFloat m e\<close> is the float
  \<open>m * 2 ^ e\<close>, so \<open>0.5\<close> is \<open>XFloat 1 (-1)\<close>.
\<close>

datatype xplane_value = XBool bool | XInt int | XStr string | XFloat int int

text \<open>
  Modelled from the spec: the enum \<open>xplane_249_constants.WorkflowType\<close> is not among
  the sources; the glossary names its members regular, bulk and skip. Python passes
  any value where a workflow type is expected, and \<open>OTHER\<close> stands for every value
  that is none of the three.
\<close>

datatype WorkflowType = REGULAR | BULK | SKIP | OTHER

text \<open>
  The calls that \<open>do_249_conversion\<close> makes into the other converter modules, which
  are not among the sources. Each call is recorded, in order, in the session.
\<close>

datatype call =
    Call_convert_workflow scene_id WorkflowType
  | Call_convert_armature_animations scene_id object_id
  | Call_convert_manipulators scene_id object_id
  | Call_do_convert_layer_properties scene_id WorkflowType "object_id list"

text \<open>What \<open>remove_faces\<close> reads of a face of the \<open>bmesh\<close>.\<close>

record BMFace =
  index :: nat
  material_index :: nat

text \<open>
  The host application and the converter modules outside the sources are a
  parameter: a state \<open>'w\<close> (the host's data) and the operations the code applies to
  it, each named after the attribute or function the source uses. Reads are
  functions of the state, writes return the new state, constructors return the new
  reference with it, and the calls into the other converter modules may raise.
  \<open>object_at\<close> is what is read of an object: \<open>obj.name\<close>, \<open>obj.type\<close> and the mesh
  struct at \<open>obj.data.as_pointer()\<close>. \<open>find_property_in_parents\<close> is the truth value of
  component \<open>[1]\<close> of the result. \<open>bm_faces\<close> is \<open>bm.faces\<close> after \<open>bm.from_mesh(obj.data)\<close>;
  \<open>bm_delete\<close> is \<open>bmesh.ops.delete\<close> of the given faces followed by \<open>bm.to_mesh\<close>.
\<close>

record 'w host =
  data_scenes :: "'w \<Rightarrow> scene_id list"
  set_screen_scene :: "scene_id \<Rightarrow> 'w \<Rightarrow> 'w"
  set_debug :: "scene_id \<Rightarrow> bool \<Rightarrow> 'w \<Rightarrow> 'w"
  scene_objects :: "scene_id \<Rightarrow> 'w \<Rightarrow> object_id list"
  object_at :: "object_id \<Rightarrow> 'w \<Rightarrow> Object"
  append_to_name :: "object_id \<Rightarrow> string \<Rightarrow> 'w \<Rightarrow> 'w"
  convert_workflow :: "scene_id \<Rightarrow> WorkflowType \<Rightarrow> 'w \<Rightarrow> (error + object_id list) \<times> 'w"
  convert_armature_animations :: "scene_id \<Rightarrow> object_id \<Rightarrow> 'w \<Rightarrow> (error + object_id list) \<times> 'w"
  convert_manipulators :: "scene_id \<Rightarrow> object_id \<Rightarrow> 'w \<Rightarrow> (error + bool) \<times> 'w"
  do_convert_layer_properties :: "scene_id \<Rightarrow> WorkflowType \<Rightarrow> object_id list \<Rightarrow> 'w \<Rightarrow> (error + unit) \<times> 'w"
  get_all_children_recursive :: "object_id \<Rightarrow> scene_id \<Rightarrow> 'w \<Rightarrow> object_id list"
  find_property_in_parents :: "object_id \<Rightarrow> string \<Rightarrow> 'w \<Rightarrow> bool"
  layer_name :: "object_id \<Rightarrow> 'w \<Rightarrow> string"
  set_export_type :: "object_id \<Rightarrow> string \<Rightarrow> 'w \<Rightarrow> 'w"
  object_copy :: "object_id \<Rightarrow> 'w \<Rightarrow> object_id \<times> 'w"
  scene_link :: "scene_id \<Rightarrow> object_id \<Rightarrow> 'w \<Rightarrow> 'w"
  data_copy :: "object_id \<Rightarrow> 'w \<Rightarrow> mesh_id \<times> 'w"
  set_data :: "object_id \<Rightarrow> mesh_id \<Rightarrow> 'w \<Rightarrow> 'w"
  set_active :: "scene_id \<Rightarrow> object_id \<Rightarrow> 'w \<Rightarrow> 'w"
  set_active_material_index :: "scene_id \<Rightarrow> nat \<Rightarrow> 'w \<Rightarrow> 'w"
  material_slot_remove :: "'w \<Rightarrow> 'w"
  bm_faces :: "object_id \<Rightarrow> 'w \<Rightarrow> BMFace list"
  bm_delete :: "object_id \<Rightarrow> BMFace list \<Rightarrow> 'w \<Rightarrow> 'w"
  material_slots :: "object_id \<Rightarrow> 'w \<Rightarrow> material_id option list"
  set_slot_material :: "object_id \<Rightarrow> nat \<Rightarrow> material_id \<Rightarrow> 'w \<Rightarrow> 'w"
  materials_new :: "string \<Rightarrow> 'w \<Rightarrow> material_id \<times> 'w"
  materials_get :: "string \<Rightarrow> 'w \<Rightarrow> material_id option"
  materials_remove :: "material_id \<Rightarrow> 'w \<Rightarrow> 'w"
  material_users :: "material_id \<Rightarrow> 'w \<Rightarrow> nat"
  material_name :: "material_id \<Rightarrow> 'w \<Rightarrow> string"
  material_copy :: "material_id \<Rightarrow> 'w \<Rightarrow> material_id \<times> 'w"
  set_material_name :: "material_id \<Rightarrow> string \<Rightarrow> 'w \<Rightarrow> 'w"
  set_material_xplane :: "material_id \<Rightarrow> string \<Rightarrow> xplane_value \<Rightarrow> 'w \<Rightarrow> 'w"


text \<open>
  The state of a session: the module-level \<open>_runs\<close> and \<open>_converted_objects\<close> of
  \<open>xplane_249_convert\<close>, the module-level \<open>logger\<close> of \<open>xplane_helpers\<close>, the record of
  calls, and the host's data. The sinks of the logger's transports write to the host.
\<close>

record 'w session =
  runs :: int
  converted_objects :: "object_id set"
  logger :: "(pyval, 'w) XPlaneLogger"
  calls :: "call list"
  bpy :: 'w

definition session_init :: "'w \<Rightarrow> 'w session" where
  "session_init w =
     \<lparr>runs = 0, converted_objects = {}, logger = XPlaneLogger_init, calls = [], bpy = w\<rparr>"

text \<open>
  A statement of the source is a function from the state to a result, or the
  exception raised, and the state reached; the state is kept when an exception
  is raised.
\<close>

type_synonym ('a, 's) prog = "'s \<Rightarrow> (error + 'a) \<times> 's"

definition returnS :: "'a \<Rightarrow> ('a, 's) prog" where
  "returnS x = (\<lambda>s. (Inr x, s))"

definition raiseS :: "error \<Rightarrow> ('a, 's) prog" where
  "raiseS e = (\<lambda>s. (Inl e, s))"

definition bindS :: "('a, 's) prog \<Rightarrow> ('a \<Rightarrow> ('b, 's) prog) \<Rightarrow> ('b, 's) prog" where
  "bindS m f = (\<lambda>s. case m s of (Inl e, s') \<Rightarrow> (Inl e, s') | (Inr x, s') \<Rightarrow> f x s')"

definition host_update :: "('w \<Rightarrow> 'w) \<Rightarrow> (unit, 'w session) prog" where
  "host_update f = (\<lambda>s. (Inr (), s\<lparr>bpy := f (bpy s)\<rparr>))"

definition host_new :: "('w \<Rightarrow> 'a \<times> 'w) \<Rightarrow> ('a, 'w session) prog" where
  "host_new f = (\<lambda>s. (Inr (fst (f (bpy s))), s\<lparr>bpy := snd (f (bpy s))\<rparr>))"

definition host_read :: "('w \<Rightarrow> 'a) \<Rightarrow> ('a, 'w session) prog" where
  "host_read f = (\<lambda>s. (Inr (f (bpy s)), s))"

definition host_call :: "call \<Rightarrow> ('w \<Rightarrow> (error + 'a) \<times> 'w) \<Rightarrow> ('a, 'w session) prog" where
  "host_call c f = (\<lambda>s.
     (fst (f (bpy s)), s\<lparr>calls := calls s @ [c], bpy := snd (f (bpy s))\<rparr>))"

section \<open>xplane_249_convert.py: do_249_conversion\<close>

text \<open>\<open>"{:02d}".format(i)\<close>: the decimal digits of \<open>i\<close>, padded with zeros to two places.\<close>

function str_of_nat :: "nat \<Rightarrow> string" where
  "str_of_nat n =
     (if n < 10 then [char_of (48 + n)]
      else str_of_nat (n div 10) @ [char_of (48 + n mod 10)])"
  by pat_completeness auto
termination
  by (relation "measure id") auto

declare str_of_nat.simps [simp del]

definition format_02d :: "nat \<Rightarrow> string" where
  "format_02d i = replicate (2 - length (str_of_nat i)) CHR ''0'' @ str_of_nat i"

text \<open>
  The loop over the armatures. \<open>filter\<close> is lazy: its test reads \<open>_converted_objects\<close>
  and the type of the object when the object is reached. The objects of the scene
  are taken as they are when the loop starts.
\<close>

fun armature_loop :: "'w host \<Rightarrow> scene_id \<Rightarrow> object_id list \<Rightarrow> (unit, 'w session) prog" where
  "armature_loop h scene [] s = (Inr (), s)"
| "armature_loop h scene (obj # rest) s =
     (if obj \<notin> converted_objects s \<and> obj_type (object_at h obj (bpy s)) = ''ARMATURE''
      then (case host_call (Call_convert_armature_animations scene obj)
                   (convert_armature_animations h scene obj) s of
              (Inl e, s') \<Rightarrow> (Inl e, s')
            | (Inr converted, s') \<Rightarrow>
                armature_loop h scene rest
                  (s'\<lparr>converted_objects := converted_objects s' \<union> set converted\<rparr>))
      else armature_loop h scene rest s)"

fun manipulators_loop :: "'w host \<Rightarrow> scene_id \<Rightarrow> object_id list \<Rightarrow> (unit, 'w session) prog" where
  "manipulators_loop h scene [] s = (Inr (), s)"
| "manipulators_loop h scene (obj # rest) s =
     (case host_call (Call_convert_manipulators scene obj) (convert_manipulators h scene obj) s of
        (Inl e, s') \<Rightarrow> (Inl e, s')
      | (Inr converted_manipulator, s') \<Rightarrow> manipulators_loop h scene rest s')"

text \<open>The \<open>if\<close>/\<open>elif\<close>/\<open>else\<close> on the workflow type at the end of the loop body.\<close>

definition convert_layer_properties_step ::
  "'w host \<Rightarrow> WorkflowType \<Rightarrow> scene_id \<Rightarrow> object_id list \<Rightarrow> (unit, 'w session) prog" where
  "convert_layer_properties_step h workflow_type scene new_roots =
     (if workflow_type = SKIP then returnS ()
      else if workflow_type = REGULAR \<or> workflow_type = BULK then
        host_call (Call_do_convert_layer_properties scene workflow_type new_roots)
          (do_convert_layer_properties h scene workflow_type new_roots)
      else raiseS (AssertionError ''Unknown workflow type''))"

text \<open>The body of the loop over the scenes; \<open>new_roots[0]\<close> raises on an empty list.\<close>

definition convert_scene ::
  "'w host \<Rightarrow> WorkflowType \<Rightarrow> nat \<Rightarrow> scene_id \<Rightarrow> (unit, 'w session) prog" where
  "convert_scene h workflow_type i scene =
     bindS (host_update (set_screen_scene h scene)) (\<lambda>_.
     bindS (host_update (set_debug h scene True)) (\<lambda>_.
     bindS (host_call (Call_convert_workflow scene workflow_type)
              (convert_workflow h scene workflow_type)) (\<lambda>new_roots.
     bindS (if workflow_type = REGULAR then
              (case new_roots of
                 [] \<Rightarrow> raiseS IndexError
               | root # _ \<Rightarrow> host_update (append_to_name h root (''_'' @ format_02d i)))
            else returnS ()) (\<lambda>_.
     bindS (\<lambda>s. armature_loop h scene (scene_objects h scene (bpy s)) s) (\<lambda>_.
     bindS (\<lambda>s. manipulators_loop h scene (scene_objects h scene (bpy s)) s) (\<lambda>_.
     convert_layer_properties_step h workflow_type scene new_roots))))))"

text \<open>
  The statements of the loop body before the layer-properties block, on their own;
  their value is \<open>new_roots\<close>.
\<close>

definition convert_scene_before_layer_properties ::
  "'w host \<Rightarrow> WorkflowType \<Rightarrow> nat \<Rightarrow> scene_id \<Rightarrow> (object_id list, 'w session) prog" where
  "convert_scene_before_layer_properties h workflow_type i scene =
     bindS (host_update (set_screen_scene h scene)) (\<lambda>_.
     bindS (host_update (set_debug h scene True)) (\<lambda>_.
     bindS (host_call (Call_convert_workflow scene workflow_type)
              (convert_workflow h scene workflow_type)) (\<lambda>new_roots.
     bindS (if workflow_type = REGULAR then
              (case new_roots of
                 [] \<Rightarrow> raiseS IndexError
               | root # _ \<Rightarrow> host_update (append_to_name h root (''_'' @ format_02d i)))
            else returnS ()) (\<lambda>_.
     bindS (\<lambda>s. armature_loop h scene (scene_objects h scene (bpy s)) s) (\<lambda>_.
     bindS (\<lambda>s. manipulators_loop h scene (scene_objects h scene (bpy s)) s) (\<lambda>_.
     returnS new_roots))))))"

fun scenes_loop ::
  "'w host \<Rightarrow> WorkflowType \<Rightarrow> (nat \<times> scene_id) list \<Rightarrow> (unit, 'w session) prog" where
  "scenes_loop h workflow_type [] s = (Inr (), s)"
| "scenes_loop h workflow_type ((i, scene) # rest) s =
     (case convert_scene h workflow_type i scene s of
        (Inl e, s') \<Rightarrow> (Inl e, s')
      | (Inr u, s') \<Rightarrow> scenes_loop h workflow_type rest s')"

definition do_249_conversion :: "'w host \<Rightarrow> WorkflowType \<Rightarrow> (unit, 'w session) prog" where
  "do_249_conversion h workflow_type = (\<lambda>s.
     if runs s > 0 then (Inr (), s)
     else scenes_loop h workflow_type (enumerate 1 (data_scenes h (bpy s)))
            (s\<lparr>runs := runs s + 1\<rparr>))"

text \<open>A session: the invocations of \<open>do_249_conversion\<close> one after the other.\<close>

fun invocations :: "'w host \<Rightarrow> WorkflowType list \<Rightarrow> 'w session \<Rightarrow> 'w session" where
  "invocations h [] s = s"
| "invocations h (workflow_type # rest) s =
     invocations h rest (snd (do_249_conversion h workflow_type s))"

text \<open>The recorded calls of \<open>do_convert_layer_properties\<close>: scene and workflow type of each.\<close>

fun layer_properties_calls :: "call list \<Rightarrow> (scene_id \<times> WorkflowType) list" where
  "layer_properties_calls [] = []"
| "layer_properties_calls (Call_do_convert_layer_properties scene workflow_type roots # cs) =
     (scene, workflow_type) # layer_properties_calls cs"
| "layer_properties_calls (c # cs) = layer_properties_calls cs"

section \<open>xplane_249_material_converter.py: convert_materials\<close>

text \<open>
  The constants of \<open>xplane_constants\<close> and \<open>xplane_249_constants\<close> that the material
  converter uses; the modules are not among the sources, so they are a parameter.
\<close>

record converter_constants =
  BLEND_SHADOW :: string
  BLEND_OFF :: string
  EXPORT_TYPE_INSTANCED_SCENERY :: string
  DEFAULT_MATERIAL_NAME :: string

text \<open>Statements in sequence, and a statement under an \<open>if\<close> without \<open>else\<close>.\<close>

definition seqS :: "(unit, 's) prog \<Rightarrow> ('a, 's) prog \<Rightarrow> ('a, 's) prog" where
  "seqS m n = bindS m (\<lambda>_. n)"

definition whenS :: "bool \<Rightarrow> (unit, 's) prog \<Rightarrow> (unit, 's) prog" where
  "whenS b m = (if b then m else returnS ())"

fun stepsS :: "(unit, 's) prog list \<Rightarrow> (unit, 's) prog" where
  "stepsS [] = returnS ()"
| "stepsS (m # ms) = seqS m (stepsS ms)"

text \<open>\<open>logger.info(msg)\<close> and \<open>logger.warn(msg)\<close> on the module-level logger, context \<open>None\<close>.\<close>

definition logger_info :: "string \<Rightarrow> (unit, 'w session) prog" where
  "logger_info msg = (\<lambda>s.
     (Inr (), s\<lparr>logger := fst (info msg PNone (logger s, bpy s)),
                bpy := snd (info msg PNone (logger s, bpy s))\<rparr>))"

definition logger_warn :: "string \<Rightarrow> (unit, 'w session) prog" where
  "logger_warn msg = (\<lambda>s.
     (Inr (), s\<lparr>logger := fst (warn msg PNone (logger s, bpy s)),
                bpy := snd (warn msg PNone (logger s, bpy s))\<rparr>))"

text \<open>
  \<open>_TexFaceModes.short_name\<close>: the first two letters of each pressed field, and of
  \<open>DYNAMIC\<close> when it is not pressed.
\<close>

definition short_name :: "TexFaceModes \<Rightarrow> string" where
  "short_name self =
     concat [if TEX self then ''TE'' else [],
             if TILES self then ''TI'' else [],
             if LIGHT self then ''LI'' else [],
             if INVISIBLE self then ''IN'' else [],
             if \<not> DYNAMIC self then ''DY'' else [],
             if TWOSIDE self then ''TW'' else [],
             if SHADOW self then ''SH'' else [],
             if ALPHA self then ''AL'' else [],
             if CLIP self then ''CL'' else []]"

text \<open>\<open>logger.info("{}: ...".format(mat.name))\<close>.\<close>

definition info_about :: "'w host \<Rightarrow> material_id \<Rightarrow> string \<Rightarrow> (unit, 'w session) prog" where
  "info_about h mat text = (\<lambda>s. logger_info (material_name h mat (bpy s) @ text) s)"

text \<open>
  \<open>_convert_material\<close> (named \<open>convert_material_249\<close> here, apart from the nested
  \<open>convert_material\<close> of \<open>convert_materials\<close>). The source line that sets the name of
  the new material lacks the \<open>+\<close> between the literal and the call of \<open>short_name\<close>;
  it is read as the concatenation. An empty material slot holds \<open>None\<close>, on which
  \<open>mat.name\<close> raises. The values formatted into the messages are the ones just
  assigned.
\<close>

definition convert_material_249 ::
  "'w host \<Rightarrow> converter_constants \<Rightarrow> scene_id \<Rightarrow> object_id \<Rightarrow> object_id \<Rightarrow> bool \<Rightarrow>
   TexFaceModes \<Rightarrow> material_id option \<Rightarrow> (material_id, 'w session) prog" where
  "convert_material_249 h cc scene root_object search_obj is_cockpit tf_modes mat_slot =
     (case mat_slot of
        None \<Rightarrow> raiseS AttributeError
      | Some mat \<Rightarrow>
     bindS (host_new (material_copy h mat)) (\<lambda>new_material.
     seqS (stepsS [
       (\<lambda>s. host_update (set_material_name h new_material
               (material_name h mat (bpy s) @ ''_split_'' @ short_name tf_modes)) s),
       whenS (TEX tf_modes) (stepsS [
         whenS (ALPHA tf_modes) (stepsS [
           bindS (host_read (find_property_in_parents h search_obj ''ATTR_shadow_blend'')) (\<lambda>found.
           whenS found (stepsS [
             host_update (set_material_xplane h new_material ''blend_v1000'' (XStr (BLEND_SHADOW cc))),
             host_update (set_material_xplane h new_material ''blendRatio'' (XFloat 1 (- 1))),
             info_about h mat '': Blend Mode='Shadow' and Blend Ratio=0.5''])),
           bindS (host_read (find_property_in_parents h search_obj ''GLOBAL_shadow_blend'')) (\<lambda>found.
           whenS found (stepsS [
             host_update (set_material_xplane h new_material ''blend_v1000'' (XStr (BLEND_SHADOW cc))),
             host_update (set_material_xplane h new_material ''blendRatio'' (XFloat 1 (- 1))),
             host_update (set_export_type h root_object (EXPORT_TYPE_INSTANCED_SCENERY cc)),
             info_about h mat
               '': Blend Mode='Shadow' and Blend Ratio=0.5, now Instanced Scenery'']))]),
         whenS (CLIP tf_modes) (stepsS [
           bindS (host_read (find_property_in_parents h search_obj ''ATTR_no_blend'')) (\<lambda>found.
           whenS found (stepsS [
             host_update (set_material_xplane h new_material ''blend_v1000'' (XStr (BLEND_OFF cc))),
             host_update (set_material_xplane h new_material ''blendRatio'' (XFloat 1 (- 1))),
             info_about h mat '': Blend Mode='Off' and Blend Ratio=0.5''])),
           bindS (host_read (find_property_in_parents h search_obj ''GLOBAL_no_blend'')) (\<lambda>found.
           whenS found (stepsS [
             host_update (set_material_xplane h new_material ''blend_v1000'' (XStr (BLEND_OFF cc))),
             host_update (set_material_xplane h new_material ''blendRatio'' (XFloat 1 (- 1))),
             host_update (set_export_type h root_object (EXPORT_TYPE_INSTANCED_SCENERY cc)),
             info_about h mat
               '': Blend Mode='Off' and Blend Ratio=0.5, now Instanced Scenery'']))])]),
       whenS (\<not> is_cockpit \<and> (TILES tf_modes \<or> LIGHT tf_modes))
         (bindS (host_read (find_property_in_parents h search_obj ''ATTR_draped'')) (\<lambda>found.
          if found then stepsS [
            host_update (set_material_xplane h new_material ''draped'' (XBool True)),
            info_about h mat '': Draped=True'']
          else stepsS [
            host_update (set_material_xplane h new_material ''poly_os'' (XInt 2)),
            info_about h mat '': Poly Offset=2''])),
       whenS (INVISIBLE tf_modes) (stepsS [
         host_update (set_material_xplane h new_material ''draw'' (XBool False)),
         info_about h mat '': Draw Objects With This Material=False'']),
       whenS (\<not> INVISIBLE tf_modes \<and> \<not> is_cockpit \<and> \<not> DYNAMIC tf_modes) (stepsS [
         host_update (set_material_xplane h new_material ''solid_camera'' (XBool True)),
         info_about h mat '': Solid Camera=True'']),
       whenS (TWOSIDE tf_modes)
         (\<lambda>s. logger_warn (material_name h mat (bpy s) @ '': Two Sided is deprecated, skipping'') s),
       host_update (set_material_xplane h new_material ''shadow_local'' (XBool (\<not> SHADOW tf_modes))),
       whenS (\<not> (\<not> SHADOW tf_modes)) (info_about h mat '': Cast Shadow (Local)=False'')])
     (returnS new_material)))"

text \<open>
  \<open>ISCOCKPIT\<close>: \<open>str.lower\<close> on the characters below 256, \<open>str.endswith\<close>, and \<open>any\<close>
  over the three suffixes.
\<close>

definition py_lower_char :: "char \<Rightarrow> char" where
  "py_lower_char c =
     (let n = (of_char c :: nat)
      in if (65 \<le> n \<and> n \<le> 90) \<or> (192 \<le> n \<and> n \<le> 222 \<and> n \<noteq> 215)
         then char_of (n + 32) else c)"

definition endswith :: "string \<Rightarrow> string \<Rightarrow> bool" where
  "endswith s sfx = (length sfx \<le> length s \<and> drop (length s - length sfx) s = sfx)"

definition is_cockpit_layer :: "string \<Rightarrow> bool" where
  "is_cockpit_layer layer_name_value =
     list_ex (\<lambda>cockpit_suffix. endswith (map py_lower_char layer_name_value @ ''.obj'') cockpit_suffix)
       [''_cockpit.obj'', ''_cockpit_inn.obj'', ''_cockpit_out.obj'']"

text \<open>The first statement of \<open>convert_materials\<close>: the objects to search.\<close>

definition select_search_objs ::
  "'w host \<Rightarrow> scene_id \<Rightarrow> WorkflowType \<Rightarrow> object_id \<Rightarrow> (object_id list, 'w session) prog" where
  "select_search_objs h scene workflow_type root_object =
     (if workflow_type = REGULAR then host_read (scene_objects h scene)
      else if workflow_type = BULK then
        host_read (\<lambda>w. [root_object] @ get_all_children_recursive h root_object scene w)
      else raiseS (AssertionError ''Unknown workflow type''))"

text \<open>
  The nested \<open>copy_obj\<close>, with its counter \<open>i\<close> as an argument, and the dict
  comprehension that calls it once for each entry of \<open>all_tf_modes\<close>, in order.
\<close>

definition copy_obj ::
  "'w host \<Rightarrow> scene_id \<Rightarrow> object_id \<Rightarrow> nat \<Rightarrow> (object_id, 'w session) prog" where
  "copy_obj h scene search_obj i =
     bindS (host_new (object_copy h search_obj)) (\<lambda>new_obj.
     seqS (host_update (scene_link h scene new_obj))
     (bindS (host_new (data_copy h search_obj)) (\<lambda>new_mesh.
     seqS (if i < length [''SHADOW'', ''TILE'', ''INVISIBLE'']
           then host_update (append_to_name h new_obj ([''SHADOW'', ''TILE'', ''INVISIBLE''] ! i))
           else raiseS IndexError)
     (seqS (host_update (set_data h new_obj new_mesh))
     (returnS new_obj)))))"

fun copy_objs_loop ::
  "'w host \<Rightarrow> scene_id \<Rightarrow> object_id \<Rightarrow> nat \<Rightarrow> (TexFaceModes \<times> nat list) list \<Rightarrow>
   ((TexFaceModes \<times> nat list \<times> object_id) list, 'w session) prog" where
  "copy_objs_loop h scene search_obj i [] s = (Inr [], s)"
| "copy_objs_loop h scene search_obj i ((tf_modes, faces_idx) # rest) s =
     (case copy_obj h scene search_obj i s of
        (Inl e, s') \<Rightarrow> (Inl e, s')
      | (Inr new_obj, s') \<Rightarrow>
          (case copy_objs_loop h scene search_obj (Suc i) rest s' of
             (Inl e, s'') \<Rightarrow> (Inl e, s'')
           | (Inr col, s'') \<Rightarrow> (Inr ((tf_modes, faces_idx, new_obj) # col), s'')))"

text \<open>
  The nested \<open>remove_faces\<close>. The set difference of the material indices, sorted in
  descending order, is computed on lists.
\<close>

definition slot_idxs_to_remove :: "BMFace list \<Rightarrow> BMFace list \<Rightarrow> nat list" where
  "slot_idxs_to_remove faces_to_remove faces_to_keep =
     rev (sort (remdups (filter (\<lambda>m. m \<notin> set (map material_index faces_to_keep))
                           (map material_index faces_to_remove))))"

definition remove_faces ::
  "'w host \<Rightarrow> scene_id \<Rightarrow> nat list \<Rightarrow> object_id \<Rightarrow> (unit, 'w session) prog" where
  "remove_faces h scene face_ids new_obj =
     bindS (host_read (bm_faces h new_obj)) (\<lambda>faces.
     (let faces_to_keep = filter (\<lambda>face. index face \<in> set face_ids) faces;
          faces_to_remove = filter (\<lambda>face. index face \<notin> set face_ids) faces
      in stepsS ([host_update (bm_delete h new_obj faces_to_remove),
                  host_update (set_active h scene new_obj)]
                 @ map (\<lambda>slot_idx. seqS (host_update (set_active_material_index h scene slot_idx))
                                        (host_update (material_slot_remove h)))
                       (slot_idxs_to_remove faces_to_remove faces_to_keep))))"

text \<open>The nested \<open>convert_material\<close>; \<open>material_slots[0]\<close> raises when there is no slot.\<close>

definition convert_material ::
  "'w host \<Rightarrow> converter_constants \<Rightarrow> scene_id \<Rightarrow> object_id \<Rightarrow> bool \<Rightarrow> TexFaceModes \<Rightarrow>
   object_id \<Rightarrow> (unit, 'w session) prog" where
  "convert_material h cc scene root_object is_cockpit tf_modes new_obj =
     bindS (host_read (material_slots h new_obj)) (\<lambda>slots.
     case slots of
       [] \<Rightarrow> raiseS IndexError
     | current_material # _ \<Rightarrow>
         bindS (convert_material_249 h cc scene root_object new_obj is_cockpit tf_modes
                  current_material) (\<lambda>new_material.
         host_update (set_slot_material h new_obj 0 new_material)))"

fun split_loop ::
  "'w host \<Rightarrow> converter_constants \<Rightarrow> scene_id \<Rightarrow> object_id \<Rightarrow> bool \<Rightarrow>
   (TexFaceModes \<times> nat list \<times> object_id) list \<Rightarrow> (unit, 'w session) prog" where
  "split_loop h cc scene root_object is_cockpit [] s = (Inr (), s)"
| "split_loop h cc scene root_object is_cockpit ((tf_modes, faceids, new_obj) # rest) s =
     (case seqS (remove_faces h scene faceids new_obj)
                (convert_material h cc scene root_object is_cockpit tf_modes new_obj) s of
        (Inl e, s') \<Rightarrow> (Inl e, s')
      | (Inr u, s') \<Rightarrow> split_loop h cc scene root_object is_cockpit rest s')"

text \<open>
  The body of the loop over the mesh objects. Its value is \<open>new_objs\<close> at the end of
  the iteration, which the source assigns and does not use.
\<close>

definition convert_search_obj ::
  "'w host \<Rightarrow> converter_constants \<Rightarrow> scene_id \<Rightarrow> object_id \<Rightarrow> bool \<Rightarrow> object_id \<Rightarrow>
   (object_id list, 'w session) prog" where
  "convert_search_obj h cc scene root_object is_cockpit search_obj =
     bindS (host_new (materials_new h (DEFAULT_MATERIAL_NAME cc))) (\<lambda>default_material.
     bindS (\<lambda>s. (get_tf_modes_from_ctypes (object_at h search_obj (bpy s)), s)) (\<lambda>all_tf_modes.
     if length all_tf_modes > 2 then
       bindS (host_read (\<lambda>w. length (scene_objects h scene w))) (\<lambda>pre_split_obj_count.
       bindS (copy_objs_loop h scene search_obj 0 all_tf_modes) (\<lambda>modes_to_faces_col.
       seqS (split_loop h cc scene root_object is_cockpit modes_to_faces_col)
       (returnS [])))
     else returnS [search_obj]))"

fun search_objs_loop ::
  "'w host \<Rightarrow> converter_constants \<Rightarrow> scene_id \<Rightarrow> object_id \<Rightarrow> bool \<Rightarrow> object_id list \<Rightarrow>
   (unit, 'w session) prog" where
  "search_objs_loop h cc scene root_object is_cockpit [] s = (Inr (), s)"
| "search_objs_loop h cc scene root_object is_cockpit (search_obj # rest) s =
     (case convert_search_obj h cc scene root_object is_cockpit search_obj s of
        (Inl e, s') \<Rightarrow> (Inl e, s')
      | (Inr new_objs, s') \<Rightarrow> search_objs_loop h cc scene root_object is_cockpit rest s')"

text \<open>The last statement: \<open>bpy.data.materials[...]\<close> raises \<open>KeyError\<close> for a missing name.\<close>

definition remove_unused_default_material ::
  "'w host \<Rightarrow> converter_constants \<Rightarrow> (unit, 'w session) prog" where
  "remove_unused_default_material h cc =
     bindS (\<lambda>s. case materials_get h (DEFAULT_MATERIAL_NAME cc) (bpy s) of
                  None \<Rightarrow> (Inl KeyError, s)
                | Some default_material \<Rightarrow> (Inr default_material, s)) (\<lambda>default_material.
     bindS (host_read (material_users h default_material)) (\<lambda>users.
     whenS (users = 0) (host_update (materials_remove h default_material))))"

text \<open>
  \<open>convert_materials\<close> after the selection of \<open>search_objs\<close>: the mesh objects among
  them, sorted by name (\<open>sorted\<close> is stable, as \<open>sort_key\<close> is), are converted in turn.
\<close>

definition convert_search_objs ::
  "'w host \<Rightarrow> converter_constants \<Rightarrow> scene_id \<Rightarrow> object_id \<Rightarrow> object_id list \<Rightarrow>
   (unit, 'w session) prog" where
  "convert_search_objs h cc scene root_object search_objs =
     bindS (host_read (\<lambda>w. is_cockpit_layer (layer_name h root_object w))) (\<lambda>ISCOCKPIT.
     seqS (\<lambda>s. search_objs_loop h cc scene root_object ISCOCKPIT
                 (sort_key (\<lambda>x. name (object_at h x (bpy s)))
                    (filter (\<lambda>obj. obj_type (object_at h obj (bpy s)) = ''MESH'') search_objs)) s)
     (remove_unused_default_material h cc))"

definition convert_materials ::
  "'w host \<Rightarrow> converter_constants \<Rightarrow> scene_id \<Rightarrow> WorkflowType \<Rightarrow> object_id \<Rightarrow>
   (unit, 'w session) prog" where
  "convert_materials h cc scene workflow_type root_object =
     bindS (select_search_objs h scene workflow_type root_object)
       (convert_search_objs h cc scene root_object)"

text \<open>
  Stated from the claim, for comparison with \<open>convert_materials\<close>: the mesh objects
  among the objects of a scope are converted one after the other, in the order of
  their names; an exception ends the conversion; at the end the default material is
  removed when it has no users.
\<close>

definition converts_mesh_objects_of ::
  "'w host \<Rightarrow> converter_constants \<Rightarrow> scene_id \<Rightarrow> object_id \<Rightarrow> object_id list \<Rightarrow>
   (unit, 'w session) prog" where
  "converts_mesh_objects_of h cc scene root_object scope = (\<lambda>s.
     let is_cockpit = is_cockpit_layer (layer_name h root_object (bpy s));
         meshes = sort_key (\<lambda>obj. name (object_at h obj (bpy s)))
                    (filter (\<lambda>obj. obj_type (object_at h obj (bpy s)) = ''MESH'') scope)
     in case fold (\<lambda>obj (r, t).
                     case r of
                       Inl e \<Rightarrow> (Inl e, t)
                     | Inr u \<Rightarrow>
                         (case convert_search_obj h cc scene root_object is_cockpit obj t of
                            (Inl e, t') \<Rightarrow> (Inl e, t')
                          | (Inr new_objs, t') \<Rightarrow> (Inr (), t')))
                  meshes (Inr (), s) of
          (Inl e, t) \<Rightarrow> (Inl e, t)
        | (Inr u, t) \<Rightarrow> remove_unused_default_material h cc t)"

section \<open>Sample inputs\<close>

text \<open>A mesh object of three polygons: collision only, textured with collision, collision only.\<close>

definition sample_mpoly :: MPoly where
  "sample_mpoly = \<lparr>loopstart = 0, totloop = 4, mat_nr = 0, mp_flag = 0, mp_pad = 0\<rparr>"

definition sample_mtpoly :: "16 word \<Rightarrow> 8 word \<Rightarrow> MTexPoly" where
  "sample_mtpoly m t = \<lparr>tpage = 0, flag = 0, transp = t, mode = m, tile = 0, pad = 0\<rparr>"

definition sample_mesh_object :: Object where
  "sample_mesh_object =
     \<lparr>name = ''Cube'', obj_type = ''MESH'',
      data = \<lparr>mpoly = Some [sample_mpoly, sample_mpoly, sample_mpoly],
              mtpoly = Some [sample_mtpoly 1 0, sample_mtpoly 5 0, sample_mtpoly 1 0],
              totpoly = 3\<rparr>\<rparr>"

text \<open>A table of constants with the build types that the pattern of \<open>parse_version\<close> names.\<close>

definition sample_constants :: xplane_constants where
  "sample_constants =
     \<lparr>BUILD_TYPE_DEV = ''dev'', BUILD_TYPE_LEGACY = ''leg'',
      BUILD_TYPES = [''dev'', ''alpha'', ''beta'', ''leg'', ''rc''],
      BUILD_NUMBER_NONE = ''NO_BUILD_NUMBR''\<rparr>"

text \<open>A mesh object of four polygons with four different combinations.\<close>

definition sample_mesh_object_4 :: Object where
  "sample_mesh_object_4 =
     \<lparr>name = ''Quad'', obj_type = ''MESH'',
      data = \<lparr>mpoly = Some [sample_mpoly, sample_mpoly, sample_mpoly, sample_mpoly],
              mtpoly = Some [sample_mtpoly 1 0, sample_mtpoly 5 0, sample_mtpoly 129 0,
                             sample_mtpoly 17 0],
              totpoly = 4\<rparr>\<rparr>"

text \<open>Constants for the material converter.\<close>

definition sample_converter_constants :: converter_constants where
  "sample_converter_constants =
     \<lparr>BLEND_SHADOW = ''shadow'', BLEND_OFF = ''off'',
      EXPORT_TYPE_INSTANCED_SCENERY = ''instanced_scenery'',
      DEFAULT_MATERIAL_NAME = ''249_default''\<rparr>"

text \<open>
  A host for concrete runs: one scene with one object, the sample mesh object;
  the host's data is the journal of the writes applied to it.
\<close>

definition sample_host :: "string list host" where
  "sample_host =
     \<lparr>data_scenes = (\<lambda>w. [0]),
      set_screen_scene = (\<lambda>scene w. w @ [''screen.scene'']),
      set_debug = (\<lambda>scene b w. w @ [''debug'']),
      scene_objects = (\<lambda>scene w. [0]),
      object_at = (\<lambda>obj w. sample_mesh_object),
      append_to_name = (\<lambda>obj suffix w. w @ [''name += '' @ suffix]),
      convert_workflow = (\<lambda>scene workflow_type w. (Inr [0], w @ [''convert_workflow''])),
      convert_armature_animations = (\<lambda>scene obj w. (Inr [], w)),
      convert_manipulators = (\<lambda>scene obj w. (Inr False, w @ [''convert_manipulators''])),
      do_convert_layer_properties =
        (\<lambda>scene workflow_type roots w. (Inr (), w @ [''do_convert_layer_properties''])),
      get_all_children_recursive = (\<lambda>obj scene w. []),
      find_property_in_parents = (\<lambda>obj prop w. False),
      layer_name = (\<lambda>obj w. ''Layer''),
      set_export_type = (\<lambda>obj t w. w @ [''export_type'']),
      object_copy = (\<lambda>obj w. (Suc obj, w @ [''object.copy''])),
      scene_link = (\<lambda>scene obj w. w @ [''link'']),
      data_copy = (\<lambda>obj w. (Suc obj, w @ [''data.copy''])),
      set_data = (\<lambda>obj mesh w. w @ [''data'']),
      set_active = (\<lambda>scene obj w. w @ [''active'']),
      set_active_material_index = (\<lambda>scene i w. w @ [''active_material_index'']),
      material_slot_remove = (\<lambda>w. w @ [''material_slot_remove'']),
      bm_faces = (\<lambda>obj w. []),
      bm_delete = (\<lambda>obj faces w. w @ [''bmesh.ops.delete'']),
      material_slots = (\<lambda>obj w. [Some 0]),
      set_slot_material = (\<lambda>obj i mat w. w @ [''slot.material'']),
      materials_new = (\<lambda>n w. (0, w @ [''materials.new''])),
      materials_get = (\<lambda>n w. Some 0),
      materials_remove = (\<lambda>mat w. w @ [''materials.remove'']),
      material_users = (\<lambda>mat w. 0),
      material_name = (\<lambda>mat w. ''Material''),
      material_copy = (\<lambda>mat w. (Suc mat, w @ [''material.copy''])),
      set_material_name = (\<lambda>mat n w. w @ [''material.name'']),
      set_material_xplane = (\<lambda>mat prop v w. w @ [''material.xplane.'' @ prop])\<rparr>"

text \<open>The same host with two objects in the scene; the root object has no children.\<close>

definition sample_host_2 :: "string list host" where
  "sample_host_2 = sample_host\<lparr>scene_objects := (\<lambda>scene w. [0, 1])\<rparr>"

section \<open>Properties of firstMatchInList\<close>

lemma firstMatchInList_loop_find:
  "firstMatchInList_loop p items i =
     (case find p (drop i items) of Some x \<Rightarrow> PStr x | None \<Rightarrow> PBool False)"
proof (induction p items i rule: firstMatchInList_loop.induct)
  case (1 p items i)
  show ?case
  proof (cases "i < length items")
    case True
    then have d: "drop i items = items ! i # drop (Suc i) items"
      by (simp add: Cons_nth_drop_Suc)
    show ?thesis
      using True 1 by (subst firstMatchInList_loop.simps) (simp add: d)
  next
    case False
    then show ?thesis
      by (subst firstMatchInList_loop.simps) simp
  qed
qed

text \<open>
  Claim C10. \<open>firstMatchInList\<close> returns the earliest item, in list order, that the
  pattern fully matches (\<open>find\<close> yields the first element satisfying a predicate),
  and the boolean \<open>False\<close>, never \<open>None\<close>, when no item matches.
\<close>

theorem firstMatchInList_first_or_False:
  "firstMatchInList p items =
     (case find p items of Some x \<Rightarrow> PStr x | None \<Rightarrow> PBool False)
   \<and> firstMatchInList p items \<noteq> PNone
   \<and> (firstMatchInList p items = PBool False) = (find p items = None)"
  by (simp add: firstMatchInList_def firstMatchInList_loop_find split: option.split)

section \<open>Properties of XPlaneLogger\<close>

lemma findOfType_loop_filter:
  "findOfType_loop ms t found = found @ filter (\<lambda>m. type m = t) ms"
  by (induction ms arbitrary: found) simp_all

lemma hasOfType_loop_filter:
  "hasOfType_loop ms t = (filter (\<lambda>m. type m = t) ms \<noteq> [])"
  by (induction ms) simp_all

text \<open>
  Claim C9. \<open>hasOfType(t)\<close> is true exactly when \<open>findOfType(t)\<close> is non-empty;
  \<open>findOfType(t)\<close> is the buffer restricted to the messages of type \<open>t\<close>, in the
  order they were logged; the error and warning operations are the two at
  \<open>'error'\<close> and \<open>'warning'\<close>.
\<close>

theorem findOfType_hasOfType:
  "hasOfType self t = (findOfType self t \<noteq> [])
   \<and> findOfType self t = filter (\<lambda>m. type m = t) (messages self)
   \<and> findErrors self = findOfType self ''error''
   \<and> hasErrors self = hasOfType self ''error''
   \<and> findWarnings self = findOfType self ''warning''
   \<and> hasWarnings self = hasOfType self ''warning''"
  by (simp add: hasOfType_def findOfType_def findOfType_loop_filter hasOfType_loop_filter
      findErrors_def hasErrors_def findWarnings_def hasWarnings_def)

lemma log_transports_fold:
  "log_transports trs t m c w =
     fold (\<lambda>tr. fn tr t m c) (filter (\<lambda>tr. t \<in> set (types tr)) trs) w"
  by (induction trs arbitrary: w) simp_all

text \<open>
  Claim C4. \<open>log(t, m, c)\<close> appends the one record \<open>{type: t, message: m, context: c}\<close>
  at the end of the buffer, leaves the transports as they are, and runs, in
  registration order, the functions of exactly the transports whose type list
  contains \<open>t\<close>, each on \<open>(t, m, c)\<close>. A transport registered with the default type
  list on a fresh logger is run for \<open>'error'\<close>, \<open>'warning'\<close>, \<open>'info'\<close> and \<open>'success'\<close>.
\<close>

theorem log_appends_and_dispatches:
  "log t m c (self, w) =
     (self\<lparr>messages := messages self @ [\<lparr>type = t, message = m, context = c\<rparr>]\<rparr>,
      fold (\<lambda>tr. fn tr t m c) (filter (\<lambda>tr. t \<in> set (types tr)) (transports self)) w)
   \<and> transports (fst (log t m c (self, w))) = transports self
   \<and> snd (error m c (addTransport f default_messageTypes XPlaneLogger_init, w)) = f ''error'' m c w
   \<and> snd (warn m c (addTransport f default_messageTypes XPlaneLogger_init, w)) = f ''warning'' m c w
   \<and> snd (info m c (addTransport f default_messageTypes XPlaneLogger_init, w)) = f ''info'' m c w
   \<and> snd (success m c (addTransport f default_messageTypes XPlaneLogger_init, w)) = f ''success'' m c w"
  by (simp add: log_def log_transports_fold error_def warn_def info_def success_def
      addTransport_def default_messageTypes_def XPlaneLogger_init_def)

section \<open>Properties of the texture-face decoding\<close>

lemma int_bit_test: "((k::int) AND push_bit n 1 \<noteq> 0) = bit k n"
  by (simp add: push_bit_of_1 and_exp_eq_0_iff_not_bit)

lemma mode_bit_test:
  "n < 16 \<Longrightarrow> py_bool (sint (w::16 word) AND push_bit n 1) = bit w n"
  unfolding py_bool_def by (simp only: int_bit_test bit_sint_iff) (auto simp: min_def)

lemma transp_bit_test:
  "py_bool (uint (w::8 word) AND push_bit n 1) = bit w n"
  unfolding py_bool_def by (simp only: int_bit_test bit_uint_iff) (auto dest: bit_imp_le_length)

lemma tf_modes_of_bit:
  "tf_modes_of p =
     \<lparr>TEX = bit (mode p) 2, TILES = bit (mode p) 7, LIGHT = bit (mode p) 4,
      INVISIBLE = bit (mode p) 10, DYNAMIC = bit (mode p) 0, TWOSIDE = bit (mode p) 9,
      SHADOW = bit (mode p) 13, ALPHA = bit (transp p) 1, CLIP = bit (transp p) 2\<rparr>"
  unfolding tf_modes_of_def Let_def
  by (simp only: mode_bit_test transp_bit_test)

text \<open>
  Claim C3. The nine flags are exact bit tests: TEX, TILES, LIGHT, INVISIBLE,
  DYNAMIC, TWOSIDE and SHADOW are bits 2, 7, 4, 10, 0, 9 and 13 of \<open>mode\<close>, ALPHA
  and CLIP are bits 1 and 2 of \<open>transp\<close>. Clearing every other bit of the two
  fields, or changing the other fields of the struct, does not change the result.
\<close>

theorem tf_modes_of_exact_bits:
  "tf_modes_of p =
     \<lparr>TEX = bit (mode p) 2, TILES = bit (mode p) 7, LIGHT = bit (mode p) 4,
      INVISIBLE = bit (mode p) 10, DYNAMIC = bit (mode p) 0, TWOSIDE = bit (mode p) 9,
      SHADOW = bit (mode p) 13, ALPHA = bit (transp p) 1, CLIP = bit (transp p) 2\<rparr>
   \<and> tf_modes_of (p\<lparr>mode := mode p AND 0x2695, transp := transp p AND 0x06\<rparr>) = tf_modes_of p
   \<and> tf_modes_of (p\<lparr>tpage := a, flag := b, tile := c, pad := d\<rparr>) = tf_modes_of p"
  by (simp add: tf_modes_of_bit bit_and_iff bit_numeral_simps)

section \<open>Properties of the grouping of polygons\<close>

lemma dd_append_keys:
  "map fst (dd_append k v d) = (if k \<in> fst ` set d then map fst d else map fst d @ [k])"
  by (induction d) (auto simp: rev_image_eqI)

lemma dd_append_map_of:
  "map_of (dd_append k v d) k' =
     (if k' = k then Some ((case map_of d k of None \<Rightarrow> [] | Some vs \<Rightarrow> vs) @ [v])
      else map_of d k')"
  by (induction d) (auto)

lemma tf_modes_loop_keys_distinct:
  "distinct (map fst d) \<Longrightarrow> distinct (map fst (tf_modes_loop idx ps d))"
  by (induction idx ps d rule: tf_modes_loop.induct) (auto simp: dd_append_keys)

lemma tf_modes_loop_keys_set:
  "fst ` set (tf_modes_loop idx ps d) = fst ` set d \<union> (tf_modes_of \<circ> snd) ` set ps"
proof (induction idx ps d rule: tf_modes_loop.induct)
  case (1 idx d)
  then show ?case by simp
next
  case (2 idx mp mtp rest d)
  have "fst ` set (dd_append (tf_modes_of mtp) idx d) = insert (tf_modes_of mtp) (fst ` set d)"
    using dd_append_keys [of "tf_modes_of mtp" idx d]
    by (metis (no_types, lifting) Un_insert_right append_Nil2 insert_absorb list.set(2) list.set_map set_append)
  with 2 show ?case by auto
qed

lemma tf_modes_loop_map_of:
  "map_of (tf_modes_loop idx ps d) k =
     (if idxs_with k idx ps = [] then map_of d k
      else Some ((case map_of d k of None \<Rightarrow> [] | Some vs \<Rightarrow> vs) @ idxs_with k idx ps))"
proof (induction idx ps d rule: tf_modes_loop.induct)
  case (1 idx d)
  then show ?case by (simp add: idxs_with_def)
next
  case (2 idx mp mtp rest d)
  have z: "zip [idx..<idx + length ((mp, mtp) # rest)] ((mp, mtp) # rest)
           = (idx, (mp, mtp)) # zip [Suc idx..<Suc idx + length rest] rest"
    by (simp add: upt_conv_Cons del: upt_Suc)
  have i: "idxs_with k idx ((mp, mtp) # rest) =
           (if tf_modes_of mtp = k then idx # idxs_with k (Suc idx) rest else idxs_with k (Suc idx) rest)"
    unfolding idxs_with_def z by simp
  show ?case
    by (simp only: tf_modes_loop.simps "2.IH" i dd_append_map_of) (auto split: option.splits)
qed

lemma zip_upt_nth: "zip [0..<length xs] xs = map (\<lambda>j. (j, xs ! j)) [0..<length xs]"
  by (rule nth_equalityI) auto

lemma idxs_with_0:
  "idxs_with k 0 ps = filter (\<lambda>j. tf_modes_of (snd (ps ! j)) = k) [0..<length ps]"
  unfolding idxs_with_def by (simp add: zip_upt_nth filter_map comp_def)

lemma mset_concat_groups:
  "distinct ks \<Longrightarrow>
   mset (concat (map (\<lambda>k. filter (\<lambda>i. f i = k) xs) ks)) = mset (filter (\<lambda>i. f i \<in> set ks) xs)"
proof (induction ks)
  case Nil
  then show ?case by simp
next
  case (Cons k ks)
  have "mset (filter (\<lambda>i. f i = k) xs) + mset (filter (\<lambda>i. f i \<in> set ks) xs)
        = mset (filter (\<lambda>i. f i = k \<or> f i \<in> set ks) xs)"
    using Cons.prems by (induction xs) auto
  with Cons show ?case by simp
qed

lemma ptr_slice_length: "ptr_slice p n = Inr xs \<Longrightarrow> length xs = nat n"
  by (auto simp: ptr_slice_def split: if_splits option.splits)

lemma get_tf_modes_from_ctypes_full:
  assumes "obj_type obj = ''MESH''"
    and "ptr_slice (mpoly (data obj)) (sint (totpoly (data obj))) = Inr mps"
    and "ptr_slice (mtpoly (data obj)) (sint (totpoly (data obj))) = Inr tps"
  shows "\<exists>d. get_tf_modes_from_ctypes obj = Inr d
     \<and> length tps = nat (sint (totpoly (data obj)))
     \<and> distinct (map fst d)
     \<and> set (map fst d) = tf_modes_of ` set tps
     \<and> (\<forall>k vs. (k, vs) \<in> set d \<longrightarrow>
            vs = filter (\<lambda>i. tf_modes_of (tps ! i) = k) [0..<length tps])
     \<and> (\<forall>i < length tps. \<exists>!kv. kv \<in> set d \<and> i \<in> set (snd kv))
     \<and> (\<forall>kv \<in> set d. sorted_wrt (<) (snd kv) \<and> snd kv \<noteq> [])
     \<and> mset (concat (map snd d)) = mset [0..<length tps]"
proof -
  define ps where "ps = zip mps tps"
  define d where "d = tf_modes_loop 0 ps []"
  define grp where "grp k = filter (\<lambda>i. tf_modes_of (tps ! i) = k) [0..<length tps]" for k
  have len: "length mps = length tps" "length tps = nat (sint (totpoly (data obj)))"
    using assms(2,3) by (simp_all add: ptr_slice_length)
  have lps: "length ps = length tps"
    using len by (simp add: ps_def)
  have "map snd ps = tps"
    unfolding ps_def using len(1) by (rule map_snd_zip)
  then have sps: "snd ` set ps = set tps"
    by (metis list.set_map)
  have res: "get_tf_modes_from_ctypes obj = Inr d"
    using assms by (simp add: get_tf_modes_from_ctypes_def bindE_def d_def ps_def)
  have dist: "distinct (map fst d)"
    unfolding d_def by (rule tf_modes_loop_keys_distinct) simp
  have keys: "set (map fst d) = tf_modes_of ` set tps"
  proof -
    have "(tf_modes_of \<circ> snd) ` set ps = tf_modes_of ` (snd ` set ps)"
      by (simp add: image_comp)
    then show ?thesis
      using tf_modes_loop_keys_set [of 0 ps "[]"] sps by (simp add: d_def)
  qed
  have idx: "idxs_with k 0 ps = grp k" for k
    unfolding idxs_with_0 grp_def lps
    by (rule filter_cong) (simp_all add: ps_def len)
  have mo: "map_of d k = (if grp k = [] then None else Some (grp k))" for k
    using tf_modes_loop_map_of [of 0 ps "[]" k] by (simp add: d_def idx)
  have mem: "(k, vs) \<in> set d \<longleftrightarrow> (vs = grp k \<and> grp k \<noteq> [])" for k vs
  proof -
    have "(k, vs) \<in> set d \<longleftrightarrow> map_of d k = Some vs"
      using dist by simp
    also have "\<dots> \<longleftrightarrow> (vs = grp k \<and> grp k \<noteq> [])"
      unfolding mo by auto
    finally show ?thesis .
  qed
  have sv: "snd kv = grp (fst kv)" if "kv \<in> set d" for kv
    using that mem [of "fst kv" "snd kv"] by simp
  have vals: "map snd d = map grp (map fst d)"
    using sv by simp
  have srt: "sorted_wrt (<) (grp k)" for k
    unfolding grp_def by (rule sorted_wrt_filter) simp
  have uniq: "\<exists>!kv. kv \<in> set d \<and> i \<in> set (snd kv)" if "i < length tps" for i
  proof (rule ex1I [of _ "(tf_modes_of (tps ! i), grp (tf_modes_of (tps ! i)))"])
    have "i \<in> set (grp (tf_modes_of (tps ! i)))"
      using that by (simp add: grp_def)
    then show "(tf_modes_of (tps ! i), grp (tf_modes_of (tps ! i))) \<in> set d
               \<and> i \<in> set (snd (tf_modes_of (tps ! i), grp (tf_modes_of (tps ! i))))"
      by (auto simp: mem)
  next
    fix kv assume a: "kv \<in> set d \<and> i \<in> set (snd kv)"
    obtain k vs where kv: "kv = (k, vs)" by (cases kv)
    with a have "(k, vs) \<in> set d" and iv: "i \<in> set vs" by simp_all
    then have "vs = grp k" using mem by blast
    note this iv
    then have "tf_modes_of (tps ! i) = k" by (simp add: grp_def)
    with kv \<open>vs = grp k\<close> show "kv = (tf_modes_of (tps ! i), grp (tf_modes_of (tps ! i)))"
      by simp
  qed
  have "mset (concat (map snd d)) = mset (filter (\<lambda>i. tf_modes_of (tps ! i) \<in> set (map fst d)) [0..<length tps])"
    unfolding vals map_map comp_def grp_def
    using mset_concat_groups [OF dist, of "\<lambda>i. tf_modes_of (tps ! i)" "[0..<length tps]"]
    by (simp add: comp_def)
  also have "\<dots> = mset [0..<length tps]"
    unfolding keys by (rule arg_cong [where f = mset], rule filter_True) auto
  finally have perm: "mset (concat (map snd d)) = mset [0..<length tps]" .
  show ?thesis
  proof (intro exI [of _ d] conjI)
    show "get_tf_modes_from_ctypes obj = Inr d" by (rule res)
    show "length tps = nat (sint (totpoly (data obj)))" by (rule len(2))
    show "distinct (map fst d)" by (rule dist)
    show "set (map fst d) = tf_modes_of ` set tps" by (rule keys)
    show "\<forall>k vs. (k, vs) \<in> set d \<longrightarrow>
            vs = filter (\<lambda>i. tf_modes_of (tps ! i) = k) [0..<length tps]"
      by (simp add: mem grp_def)
    show "\<forall>i < length tps. \<exists>!kv. kv \<in> set d \<and> i \<in> set (snd kv)"
      using uniq by blast
    show "\<forall>kv \<in> set d. sorted_wrt (<) (snd kv) \<and> snd kv \<noteq> []"
    proof
      fix kv assume "kv \<in> set d"
      then have "(fst kv, snd kv) \<in> set d" by simp
      then have "snd kv = grp (fst kv) \<and> grp (fst kv) \<noteq> []" using mem by blast
      then show "sorted_wrt (<) (snd kv) \<and> snd kv \<noteq> []" using srt [of "fst kv"] by simp
    qed
    show "mset (concat (map snd d)) = mset [0..<length tps]" by (rule perm)
  qed
qed

text \<open>
  Claim C2. For a mesh object whose two arrays can be read for \<open>totpoly\<close> entries,
  \<open>_get_tf_modes_from_ctypes\<close> returns a dictionary \<open>d\<close> with pairwise distinct keys,
  the keys being exactly the decoded combinations of the polygons; the list under
  a key is the increasing list of the indices whose polygon decodes to that key;
  every index below \<open>totpoly\<close> lies in exactly one list, and the lists together
  hold each index \<open>0..totpoly-1\<close> once and nothing else.
\<close>

theorem get_tf_modes_from_ctypes_partition:
  assumes "obj_type obj = ''MESH''"
    and "ptr_slice (mpoly (data obj)) (sint (totpoly (data obj))) = Inr mps"
    and "ptr_slice (mtpoly (data obj)) (sint (totpoly (data obj))) = Inr tps"
  shows "\<exists>d. get_tf_modes_from_ctypes obj = Inr d
     \<and> length tps = nat (sint (totpoly (data obj)))
     \<and> distinct (map fst d)
     \<and> set (map fst d) = tf_modes_of ` set tps
     \<and> (\<forall>k vs. (k, vs) \<in> set d \<longrightarrow>
            vs = filter (\<lambda>i. tf_modes_of (tps ! i) = k) [0..<length tps])
     \<and> (\<forall>i < length tps. \<exists>!kv. kv \<in> set d \<and> i \<in> set (snd kv))
     \<and> (\<forall>kv \<in> set d. sorted_wrt (<) (snd kv) \<and> snd kv \<noteq> [])
     \<and> mset (concat (map snd d)) = mset [0..<length tps]"
  by (rule get_tf_modes_from_ctypes_full [OF assms])

theorem get_tf_modes_from_ctypes_partition_witness:
  "obj_type sample_mesh_object = ''MESH''
   \<and> ptr_slice (mpoly (data sample_mesh_object)) (sint (totpoly (data sample_mesh_object)))
       = Inr [sample_mpoly, sample_mpoly, sample_mpoly]
   \<and> ptr_slice (mtpoly (data sample_mesh_object)) (sint (totpoly (data sample_mesh_object)))
       = Inr [sample_mtpoly 1 0, sample_mtpoly 5 0, sample_mtpoly 1 0]
   \<and> (\<exists>d. get_tf_modes_from_ctypes sample_mesh_object = Inr d
        \<and> distinct (map fst d)
        \<and> (\<forall>kv \<in> set d. sorted_wrt (<) (snd kv) \<and> snd kv \<noteq> [])
        \<and> mset (concat (map snd d)) = mset [0..<3])"
proof -
  have h1: "obj_type sample_mesh_object = ''MESH''"
    by (simp add: sample_mesh_object_def)
  have h2: "ptr_slice (mpoly (data sample_mesh_object)) (sint (totpoly (data sample_mesh_object)))
       = Inr [sample_mpoly, sample_mpoly, sample_mpoly]"
    by (simp add: sample_mesh_object_def ptr_slice_def)
  have h3: "ptr_slice (mtpoly (data sample_mesh_object)) (sint (totpoly (data sample_mesh_object)))
       = Inr [sample_mtpoly 1 0, sample_mtpoly 5 0, sample_mtpoly 1 0]"
    by (simp add: sample_mesh_object_def ptr_slice_def)
  from get_tf_modes_from_ctypes_partition [OF h1 h2 h3]
  obtain d where d: "get_tf_modes_from_ctypes sample_mesh_object = Inr d"
      "distinct (map fst d)"
      "\<forall>kv \<in> set d. sorted_wrt (<) (snd kv) \<and> snd kv \<noteq> []"
      "mset (concat (map snd d))
       = mset [0..<length [sample_mtpoly 1 0, sample_mtpoly 5 0, sample_mtpoly 1 0]]"
    by blast
  have "length [sample_mtpoly 1 0, sample_mtpoly 5 0, sample_mtpoly 1 0] = 3"
    by simp
  with d(4) have "mset (concat (map snd d)) = mset [0..<3]"
    by (simp only:)
  with d(1-3) h1 h2 h3 show ?thesis
    by blast
qed

section \<open>Properties of VerStruct\<close>

lemma bindE_simps:
  "bindE (Inr x) f = f x"
  "bindE (Inl e) f = Inl e"
  by (simp_all add: bindE_def)

lemma index_from_mem: "x \<in> set xs \<Longrightarrow> \<exists>j. index_from i xs x = Inr j"
  by (induction xs arbitrary: i) auto

lemma list_index_mem: "x \<in> set xs \<Longrightarrow> \<exists>j. list_index xs x = Inr j"
  by (simp add: list_index_def index_from_mem)

lemma py_int_3: "py_int ''3'' = Inr 3"
  by (simp add: py_int_def strip_def is_space_def is_digit_def int_of_digits_def digit_value_def)

lemma py_int_2: "py_int ''2'' = Inr 2"
  by (simp add: py_int_def strip_def is_space_def is_digit_def int_of_digits_def digit_value_def)

lemma py_int_abc: "py_int ''abc'' = Inl ValueError"
  by (simp add: py_int_def strip_def is_space_def is_digit_def)

lemma split_on_3_2: "split_on CHR ''.'' ''3.2'' = [''3'', ''2'']"
  by simp

lemma split_on_abc: "split_on CHR ''.'' ''abc'' = [''abc'']"
  by simp

lemma split_on_3_4_0: "split_on CHR ''.'' ''3.4.0'' = [''3'', ''4'', ''0'']"
  by simp

lemma match_format_str_modern:
  "match_format_str ''3.4.0-beta.5+1.20170906154330''
   = Some ((''3.4.0'', ''beta'', ''5''), ''+1.20170906154330'')"
  by (simp add: match_format_str_def match_run1_def match_literal_def is_digit_def is_digit_1_9_def)

lemma match_build_suffix_modern:
  "match_build_suffix ''+1.20170906154330'' = Some (''1'', ''20170906154330'')"
  by (simp add: match_build_suffix_def match_run1_def match_literal_def match_count_def is_digit_def)

text \<open>
  Claim C5 does not hold of the code. Two of the formats that the comment above
  \<open>parse_version\<close> documents raise, whatever the constants are: for \<open>'3.2'\<close> the
  tuple has two components and \<open>is_valid\<close> raises its \<open>Exception\<close>; for the modern
  format the tuple holds the strings \<open>'3'\<close>, \<open>'4'\<close>, \<open>'0'\<close> and \<open>is_valid\<close> compares the
  first with the int \<open>3\<close>, a \<open>TypeError\<close>. A string that is no number raises the
  \<open>ValueError\<close> of \<open>int\<close>.
\<close>

theorem parse_version_raises:
  "parse_version xc ''3.2'' = Inl (Exception ''Incorrect types passed into VerStruct'')
   \<and> parse_version xc ''3.4.0-beta.5+1.20170906154330'' = Inl TypeError
   \<and> parse_version xc ''abc'' = Inl ValueError"
proof (intro conjI)
  show "parse_version xc ''3.2'' = Inl (Exception ''Incorrect types passed into VerStruct'')"
    unfolding parse_version_def Let_def
    by (simp add: split_on_3_2 py_int_3 py_int_2 bindE_simps is_valid_def del: split_on.simps)
  show "parse_version xc ''3.4.0-beta.5+1.20170906154330'' = Inl TypeError"
    unfolding parse_version_def Let_def
    by (simp add: match_format_str_modern match_build_suffix_modern split_on_3_4_0
        bindE_simps is_valid_def del: split_on.simps)
  show "parse_version xc ''abc'' = Inl ValueError"
    unfolding parse_version_def Let_def
    by (simp add: split_on_abc py_int_abc bindE_simps del: split_on.simps)
qed

text \<open>
  Claim C6 does not hold of the code. For any build type of the table, comparing
  version 3.5.0 at build type version 1 with version 3.4.0 at build type version 2
  passes through all three blocks and reaches the final \<open>raise\<close>: the tuple is
  greater but the build type version is smaller.
\<close>

theorem cmp_reaches_raise:
  assumes "bt \<in> set (BUILD_TYPES xc)"
  shows "cmp xc
           \<lparr>addon_version = [PInt 3, PInt 5, PInt 0], build_type = bt, build_type_version = 1,
            data_model_version = dl, build_number = bl\<rparr>
           \<lparr>addon_version = [PInt 3, PInt 4, PInt 0], build_type = bt, build_type_version = 2,
            data_model_version = dr, build_number = br\<rparr>
           include_data_model_version include_build_number
         = Inl (Exception ''cmp function not implemented properly'')"
    (is "cmp xc ?l ?r ?a ?b = _")
proof -
  from list_index_mem [OF assms] obtain j where j: "list_index (BUILD_TYPES xc) bt = Inr j" ..
  have le: "tuple_le [PInt 3, PInt 5, PInt 0] [PInt 3, PInt 4, PInt 0] = Inr False"
    by simp
  have ge: "tuple_ge [PInt 3, PInt 5, PInt 0] [PInt 3, PInt 4, PInt 0] = Inr True"
    by simp
  have eq: "cmp_eq_block ?l ?r ?a ?b = None"
    by (simp add: cmp_eq_block_def)
  have lt: "cmp_lt_block xc ?l ?r ?a ?b = Inr None"
    unfolding cmp_lt_block_def
    by (simp only: VerStruct.simps le bindE_simps if_False)
  have gt: "cmp_gt_block xc ?l ?r ?a ?b = Inr None"
    unfolding cmp_gt_block_def
    by (simp only: VerStruct.simps ge bindE_simps j if_True) simp
  show ?thesis
    unfolding cmp_def eq lt gt by (simp add: bindE_simps)
qed

theorem cmp_reaches_raise_witness:
  "''beta'' \<in> set (BUILD_TYPES sample_constants)
   \<and> cmp sample_constants
        \<lparr>addon_version = [PInt 3, PInt 5, PInt 0], build_type = ''beta'', build_type_version = 1,
         data_model_version = 1, build_number = ''NO_BUILD_NUMBR''\<rparr>
        \<lparr>addon_version = [PInt 3, PInt 4, PInt 0], build_type = ''beta'', build_type_version = 2,
         data_model_version = 1, build_number = ''NO_BUILD_NUMBR''\<rparr>
        False False
      = Inl (Exception ''cmp function not implemented properly'')"
proof -
  have h: "''beta'' \<in> set (BUILD_TYPES sample_constants)"
    by (simp add: sample_constants_def)
  from h cmp_reaches_raise [OF h] show ?thesis
    by (rule conjI)
qed

section \<open>Properties of do_249_conversion\<close>

lemma bindS_keep:
  assumes "\<And>s. g (snd (m s)) = g s" and "\<And>x s. g (snd (f x s)) = g s"
  shows "g (snd (bindS m f s)) = g s"
proof (cases "m s")
  case (Pair r s')
  with assms(1) [of s] have s': "g s' = g s" by simp
  show ?thesis
  proof (cases r)
    case (Inl e)
    with Pair s' show ?thesis by (simp add: bindS_def)
  next
    case (Inr x)
    with Pair s' assms(2) [of x s'] show ?thesis by (simp add: bindS_def)
  qed
qed

lemma bindS_Inr:
  assumes "\<And>s. g (snd (m s)) = g s"
    and "\<And>x s. \<not> isl (fst (f x s)) \<Longrightarrow> g (snd (f x s)) = g s @ l"
    and "\<not> isl (fst (bindS m f s))"
  shows "g (snd (bindS m f s)) = g s @ l"
proof (cases "m s")
  case (Pair r s')
  with assms(1) [of s] have s': "g s' = g s" by simp
  show ?thesis
  proof (cases r)
    case (Inl e)
    with Pair assms(3) show ?thesis by (simp add: bindS_def)
  next
    case (Inr x)
    with Pair s' assms(2) [of x s'] assms(3) show ?thesis by (simp add: bindS_def)
  qed
qed

lemma armature_loop_runs: "runs (snd (armature_loop h scene objs s)) = runs s"
  by (induction h scene objs s rule: armature_loop.induct)
     (auto simp: host_call_def split: sum.splits prod.splits)

lemma manipulators_loop_runs: "runs (snd (manipulators_loop h scene objs s)) = runs s"
  by (induction h scene objs s rule: manipulators_loop.induct)
     (auto simp: host_call_def split: sum.splits prod.splits)

lemma convert_layer_properties_step_runs:
  "runs (snd (convert_layer_properties_step h workflow_type scene new_roots s)) = runs s"
  by (simp add: convert_layer_properties_step_def returnS_def raiseS_def host_call_def)

lemma convert_scene_runs: "runs (snd (convert_scene h workflow_type i scene s)) = runs s"
  unfolding convert_scene_def
  by (intro bindS_keep)
     (simp_all add: host_update_def host_call_def returnS_def raiseS_def armature_loop_runs
        manipulators_loop_runs convert_layer_properties_step_runs split: list.split)

lemma scenes_loop_runs: "runs (snd (scenes_loop h workflow_type scenes s)) = runs s"
proof (induction scenes arbitrary: s)
  case Nil
  then show ?case by simp
next
  case (Cons p rest)
  obtain i scene where p: "p = (i, scene)" by (cases p)
  obtain r s' where c: "convert_scene h workflow_type i scene s = (r, s')"
    by (cases "convert_scene h workflow_type i scene s")
  then have s': "runs s' = runs s"
    using convert_scene_runs [of h workflow_type i scene s] by simp
  show ?case
  proof (cases r)
    case (Inl e)
    with c s' p show ?thesis by simp
  next
    case (Inr u)
    with c s' p Cons.IH [of s'] show ?thesis by simp
  qed
qed

lemma do_249_conversion_runs:
  "runs (snd (do_249_conversion h workflow_type s)) = (if runs s > 0 then runs s else runs s + 1)"
  by (simp add: do_249_conversion_def scenes_loop_runs)

lemma do_249_conversion_later:
  "runs s > 0 \<Longrightarrow> do_249_conversion h workflow_type s = (Inr (), s)"
  by (simp add: do_249_conversion_def)

lemma invocations_later: "runs s > 0 \<Longrightarrow> invocations h wts s = s"
  by (induction wts) (simp_all add: do_249_conversion_later)

text \<open>
  Claim C8. After at least one earlier invocation in a session that started with
  \<open>_runs = 0\<close> (the value the module sets when it is loaded), an invocation of \<open>do_249_conversion\<close> returns at once and leaves the
  whole session as it is: the host's scenes and objects, \<open>_converted_objects\<close> and
  the counter. The session after any number of invocations is the session after
  the first.
\<close>

theorem do_249_conversion_at_most_once:
  assumes "runs s0 = 0" and "earlier \<noteq> []"
  shows "do_249_conversion h workflow_type (invocations h earlier s0)
           = (Inr (), invocations h earlier s0)
         \<and> invocations h earlier s0 = snd (do_249_conversion h (hd earlier) s0)"
proof -
  obtain first rest where e: "earlier = first # rest"
    using assms(2) by (cases earlier) auto
  define s1 where "s1 = snd (do_249_conversion h first s0)"
  have "runs s1 = 1"
    unfolding s1_def using assms(1) by (simp add: do_249_conversion_runs)
  then have r: "runs s1 > 0" by simp
  have i: "invocations h earlier s0 = s1"
    unfolding e s1_def [symmetric] using invocations_later [OF r] by (simp add: s1_def)
  show ?thesis
    unfolding i using do_249_conversion_later [OF r] by (simp add: e s1_def)
qed

theorem do_249_conversion_at_most_once_witness:
  "runs (session_init ([] :: string list)) = 0 \<and> [REGULAR, BULK] \<noteq> []
   \<and> do_249_conversion sample_host SKIP (invocations sample_host [REGULAR, BULK] (session_init []))
       = (Inr (), invocations sample_host [REGULAR, BULK] (session_init []))
   \<and> invocations sample_host [REGULAR, BULK] (session_init [])
       = snd (do_249_conversion sample_host REGULAR (session_init []))"
proof -
  have r: "runs (session_init ([] :: string list)) = 0"
    by (simp add: session_init_def)
  have h: "[REGULAR, BULK] \<noteq> []"
    by simp
  from do_249_conversion_at_most_once [OF r h, of sample_host SKIP, unfolded list.sel] r h
  show ?thesis
    by blast
qed

lemma layer_properties_calls_append:
  "layer_properties_calls (xs @ ys) = layer_properties_calls xs @ layer_properties_calls ys"
  by (induction xs rule: layer_properties_calls.induct) simp_all

lemma armature_loop_layer_calls:
  "layer_properties_calls (calls (snd (armature_loop h scene objs s)))
   = layer_properties_calls (calls s)"
  by (induction h scene objs s rule: armature_loop.induct)
     (auto simp: host_call_def layer_properties_calls_append split: sum.splits prod.splits)

lemma manipulators_loop_layer_calls:
  "layer_properties_calls (calls (snd (manipulators_loop h scene objs s)))
   = layer_properties_calls (calls s)"
  by (induction h scene objs s rule: manipulators_loop.induct)
     (auto simp: host_call_def layer_properties_calls_append split: sum.splits prod.splits)

lemma convert_scene_SKIP_layer_calls:
  "layer_properties_calls (calls (snd (convert_scene h SKIP i scene s)))
   = layer_properties_calls (calls s)"
  unfolding convert_scene_def
  by (intro bindS_keep [where g = "\<lambda>s. layer_properties_calls (calls s)"])
     (simp_all add: host_update_def host_call_def returnS_def raiseS_def
        armature_loop_layer_calls manipulators_loop_layer_calls
        convert_layer_properties_step_def layer_properties_calls_append)

lemma convert_scene_layer_calls:
  assumes "workflow_type = REGULAR \<or> workflow_type = BULK"
    and "\<not> isl (fst (convert_scene h workflow_type i scene s))"
  shows "layer_properties_calls (calls (snd (convert_scene h workflow_type i scene s)))
   = layer_properties_calls (calls s) @ [(scene, workflow_type)]"
  using assms(2) unfolding convert_scene_def
  apply (rule bindS_Inr [where g = "\<lambda>s. layer_properties_calls (calls s)", rotated 2])
   apply (simp add: host_update_def)
  apply (erule bindS_Inr [where g = "\<lambda>s. layer_properties_calls (calls s)", rotated 2])
   apply (simp add: host_update_def)
  apply (erule bindS_Inr [where g = "\<lambda>s. layer_properties_calls (calls s)", rotated 2])
   apply (simp add: host_call_def layer_properties_calls_append)
  apply (erule bindS_Inr [where g = "\<lambda>s. layer_properties_calls (calls s)", rotated 2])
   apply (simp add: host_update_def returnS_def raiseS_def split: list.split)
  apply (erule bindS_Inr [where g = "\<lambda>s. layer_properties_calls (calls s)", rotated 2])
   apply (simp add: armature_loop_layer_calls)
  apply (erule bindS_Inr [where g = "\<lambda>s. layer_properties_calls (calls s)", rotated 2])
   apply (simp add: manipulators_loop_layer_calls)
  using assms(1)
  apply (auto simp: convert_layer_properties_step_def host_call_def layer_properties_calls_append)
  done

lemma scenes_loop_SKIP_layer_calls:
  "layer_properties_calls (calls (snd (scenes_loop h SKIP scenes s)))
   = layer_properties_calls (calls s)"
proof (induction scenes arbitrary: s)
  case Nil
  then show ?case by simp
next
  case (Cons p rest)
  obtain i scene where p: "p = (i, scene)" by (cases p)
  obtain r s' where c: "convert_scene h SKIP i scene s = (r, s')"
    by (cases "convert_scene h SKIP i scene s")
  then have s': "layer_properties_calls (calls s') = layer_properties_calls (calls s)"
    using convert_scene_SKIP_layer_calls [of h i scene s] by simp
  show ?case
  proof (cases r)
    case (Inl e)
    with c s' p show ?thesis by simp
  next
    case (Inr u)
    with c s' p Cons.IH [of s'] show ?thesis by simp
  qed
qed

lemma scenes_loop_layer_calls:
  assumes "workflow_type = REGULAR \<or> workflow_type = BULK"
  shows "\<not> isl (fst (scenes_loop h workflow_type scenes s)) \<Longrightarrow>
    layer_properties_calls (calls (snd (scenes_loop h workflow_type scenes s)))
    = layer_properties_calls (calls s) @ map (\<lambda>scene. (scene, workflow_type)) (map snd scenes)"
proof (induction scenes arbitrary: s)
  case Nil
  then show ?case by simp
next
  case (Cons p rest)
  obtain i scene where p: "p = (i, scene)" by (cases p)
  obtain r s' where c: "convert_scene h workflow_type i scene s = (r, s')"
    by (cases "convert_scene h workflow_type i scene s")
  show ?case
  proof (cases r)
    case (Inl e)
    with c p Cons.prems show ?thesis by simp
  next
    case (Inr u)
    with c have "\<not> isl (fst (convert_scene h workflow_type i scene s))" by simp
    from convert_scene_layer_calls [OF assms this] c
    have s': "layer_properties_calls (calls s')
              = layer_properties_calls (calls s) @ [(scene, workflow_type)]"
      by simp
    from Cons.prems c p Inr have "\<not> isl (fst (scenes_loop h workflow_type rest s'))"
      by simp
    from Cons.IH [OF this] s' c p Inr show ?thesis by simp
  qed
qed

lemma do_249_conversion_SKIP_layer_calls:
  "layer_properties_calls (calls (snd (do_249_conversion h SKIP s)))
   = layer_properties_calls (calls s)"
  by (simp add: do_249_conversion_def scenes_loop_SKIP_layer_calls)

lemma do_249_conversion_layer_calls:
  assumes "workflow_type = REGULAR \<or> workflow_type = BULK"
    and "runs s = 0"
    and "fst (do_249_conversion h workflow_type s) = Inr ()"
  shows "layer_properties_calls (calls (snd (do_249_conversion h workflow_type s)))
   = layer_properties_calls (calls s)
     @ map (\<lambda>scene. (scene, workflow_type)) (data_scenes h (bpy s))"
proof -
  let ?s = "s\<lparr>runs := runs s + 1\<rparr>"
  let ?scenes = "enumerate 1 (data_scenes h (bpy s))"
  have d: "do_249_conversion h workflow_type s = scenes_loop h workflow_type ?scenes ?s"
    using assms(2) by (simp add: do_249_conversion_def)
  with assms(3) have "\<not> isl (fst (scenes_loop h workflow_type ?scenes ?s))"
    by simp
  from scenes_loop_layer_calls [OF assms(1) this] show ?thesis
    unfolding d by (simp add: map_snd_enumerate)
qed

section \<open>Properties of convert_materials\<close>

lemma bindS_simps:
  "bindS (returnS x) f = f x"
  "bindS (raiseS e) f = raiseS e"
  "bindS (host_read g) f s = f (g (bpy s)) s"
  by (simp_all add: bindS_def returnS_def raiseS_def host_read_def fun_eq_iff)

lemma bindS_assoc: "bindS (bindS m f) g = bindS m (\<lambda>x. bindS (f x) g)"
  by (auto simp: bindS_def fun_eq_iff split: prod.splits sum.splits)

lemma bindS_if: "bindS (if b then m else n) f = (if b then bindS m f else bindS n f)"
  by simp

lemma convert_scene_decompose:
  "convert_scene h workflow_type i scene
   = bindS (convert_scene_before_layer_properties h workflow_type i scene)
       (convert_layer_properties_step h workflow_type scene)"
  unfolding convert_scene_def convert_scene_before_layer_properties_def
  by (simp only: bindS_assoc bindS_simps(1))

lemma convert_scene_SKIP:
  "convert_scene h SKIP i scene s
   = (case convert_scene_before_layer_properties h SKIP i scene s of
        (Inl e, s1) \<Rightarrow> (Inl e, s1)
      | (Inr new_roots, s1) \<Rightarrow> (Inr (), s1))"
  unfolding convert_scene_decompose
  by (simp add: bindS_def convert_layer_properties_step_def returnS_def
      split: prod.splits sum.splits)

lemma convert_scene_layer_properties:
  assumes "workflow_type = REGULAR \<or> workflow_type = BULK"
  shows "convert_scene h workflow_type i scene s
   = (case convert_scene_before_layer_properties h workflow_type i scene s of
        (Inl e, s1) \<Rightarrow> (Inl e, s1)
      | (Inr new_roots, s1) \<Rightarrow>
          (fst (do_convert_layer_properties h scene workflow_type new_roots (bpy s1)),
           s1\<lparr>calls := calls s1 @ [Call_do_convert_layer_properties scene workflow_type new_roots],
              bpy := snd (do_convert_layer_properties h scene workflow_type new_roots (bpy s1))\<rparr>))"
  unfolding convert_scene_decompose using assms
  by (auto simp: bindS_def convert_layer_properties_step_def host_call_def
      split: prod.splits sum.splits)

lemma fold_after_exception:
  "fold (\<lambda>obj (r, t). case r of Inl e \<Rightarrow> (Inl e, t) | Inr u \<Rightarrow> f obj t) objs (Inl e, s) = (Inl e, s)"
  by (induction objs) simp_all

lemma search_objs_loop_fold:
  "search_objs_loop h cc scene root_object is_cockpit objs s
   = fold (\<lambda>obj (r, t).
             case r of
               Inl e \<Rightarrow> (Inl e, t)
             | Inr u \<Rightarrow>
                 (case convert_search_obj h cc scene root_object is_cockpit obj t of
                    (Inl e, t') \<Rightarrow> (Inl e, t')
                  | (Inr new_objs, t') \<Rightarrow> (Inr (), t')))
          objs (Inr (), s)"
proof (induction objs arbitrary: s)
  case Nil
  then show ?case by simp
next
  case (Cons obj rest)
  obtain r s' where c: "convert_search_obj h cc scene root_object is_cockpit obj s = (r, s')"
    by (cases "convert_search_obj h cc scene root_object is_cockpit obj s")
  show ?case
  proof (cases r)
    case (Inl e)
    with c show ?thesis by (simp add: fold_after_exception)
  next
    case (Inr new_objs)
    with c Cons.IH [of s'] show ?thesis by simp
  qed
qed

lemma convert_search_objs_converts:
  "convert_search_objs h cc scene root_object scope s
   = converts_mesh_objects_of h cc scene root_object scope s"
  unfolding convert_search_objs_def converts_mesh_objects_of_def
  by (simp add: bindS_def seqS_def host_read_def search_objs_loop_fold Let_def
      split: prod.splits sum.splits)

lemma scenes_loop_fold:
  "scenes_loop h workflow_type scenes s
   = fold (\<lambda>(i, scene) (r, t).
             case r of Inl e \<Rightarrow> (Inl e, t) | Inr u \<Rightarrow> convert_scene h workflow_type i scene t)
          scenes (Inr (), s)"
proof (induction scenes arbitrary: s)
  case Nil
  then show ?case by simp
next
  case (Cons p rest)
  obtain i scene where p: "p = (i, scene)" by (cases p)
  have stop: "fold (\<lambda>(i, scene) (r, t).
             case r of Inl e \<Rightarrow> (Inl e, t) | Inr u \<Rightarrow> convert_scene h workflow_type i scene t)
          xs (Inl e, s') = (Inl e, s')" for xs e s'
    by (induction xs) (simp_all add: case_prod_beta)
  obtain r s' where c: "convert_scene h workflow_type i scene s = (r, s')"
    by (cases "convert_scene h workflow_type i scene s")
  show ?case
  proof (cases r)
    case (Inl e)
    with c p show ?thesis by (simp add: stop)
  next
    case (Inr u)
    with c p Cons.IH [of s'] show ?thesis by simp
  qed
qed

text \<open>
  Claim C7. Under the regular workflow \<open>convert_materials\<close> converts the mesh
  objects among the objects of the scene, under the bulk workflow those among the
  root object and its recursive children, and for any other workflow type the
  assertion fails before anything else is done. In \<open>do_249_conversion\<close> the body of
  the loop over the scenes, once the statements before the layer-properties block
  have completed, does nothing more under the skip workflow, and under the regular
  and under the bulk workflow calls \<open>do_convert_layer_properties\<close> with the scene,
  the workflow type and \<open>new_roots\<close>; its result is the result of the body. A
  first invocation runs that body for the scenes in order until one raises. So
  the skip workflow makes no such call at all, and a regular or bulk invocation
  that completes has made one for each scene.
\<close>

theorem workflow_type_selects_scope:
  "convert_materials h cc scene REGULAR root_object s
     = converts_mesh_objects_of h cc scene root_object (scene_objects h scene (bpy s)) s
   \<and> convert_materials h cc scene BULK root_object s
     = converts_mesh_objects_of h cc scene root_object
         (root_object # get_all_children_recursive h root_object scene (bpy s)) s
   \<and> convert_materials h cc scene SKIP root_object s
     = (Inl (AssertionError ''Unknown workflow type''), s)
   \<and> convert_materials h cc scene OTHER root_object s
     = (Inl (AssertionError ''Unknown workflow type''), s)
   \<and> convert_scene h SKIP i scene t
     = (case convert_scene_before_layer_properties h SKIP i scene t of
          (Inl e, t1) \<Rightarrow> (Inl e, t1)
        | (Inr new_roots, t1) \<Rightarrow> (Inr (), t1))
   \<and> convert_scene h REGULAR i scene t
     = (case convert_scene_before_layer_properties h REGULAR i scene t of
          (Inl e, t1) \<Rightarrow> (Inl e, t1)
        | (Inr new_roots, t1) \<Rightarrow>
            (fst (do_convert_layer_properties h scene REGULAR new_roots (bpy t1)),
             t1\<lparr>calls := calls t1 @ [Call_do_convert_layer_properties scene REGULAR new_roots],
                bpy := snd (do_convert_layer_properties h scene REGULAR new_roots (bpy t1))\<rparr>))
   \<and> convert_scene h BULK i scene t
     = (case convert_scene_before_layer_properties h BULK i scene t of
          (Inl e, t1) \<Rightarrow> (Inl e, t1)
        | (Inr new_roots, t1) \<Rightarrow>
            (fst (do_convert_layer_properties h scene BULK new_roots (bpy t1)),
             t1\<lparr>calls := calls t1 @ [Call_do_convert_layer_properties scene BULK new_roots],
                bpy := snd (do_convert_layer_properties h scene BULK new_roots (bpy t1))\<rparr>))
   \<and> (runs t = 0 \<longrightarrow>
        do_249_conversion h workflow_type t
        = fold (\<lambda>(i, scene) (r, u).
                  case r of Inl e \<Rightarrow> (Inl e, u) | Inr x \<Rightarrow> convert_scene h workflow_type i scene u)
               (enumerate 1 (data_scenes h (bpy t))) (Inr (), t\<lparr>runs := 1\<rparr>))
   \<and> layer_properties_calls (calls (snd (do_249_conversion h SKIP t)))
     = layer_properties_calls (calls t)
   \<and> ((workflow_type = REGULAR \<or> workflow_type = BULK) \<and> runs t = 0
        \<and> fst (do_249_conversion h workflow_type t) = Inr ()
      \<longrightarrow> layer_properties_calls (calls (snd (do_249_conversion h workflow_type t)))
          = layer_properties_calls (calls t)
            @ map (\<lambda>scene. (scene, workflow_type)) (data_scenes h (bpy t)))"
proof (intro conjI impI)
  show "convert_materials h cc scene REGULAR root_object s
     = converts_mesh_objects_of h cc scene root_object (scene_objects h scene (bpy s)) s"
    by (simp add: convert_materials_def select_search_objs_def bindS_simps
        convert_search_objs_converts)
  show "convert_materials h cc scene BULK root_object s
     = converts_mesh_objects_of h cc scene root_object
         (root_object # get_all_children_recursive h root_object scene (bpy s)) s"
    by (simp add: convert_materials_def select_search_objs_def bindS_simps
        convert_search_objs_converts)
  show "convert_materials h cc scene SKIP root_object s
     = (Inl (AssertionError ''Unknown workflow type''), s)"
    by (simp add: convert_materials_def select_search_objs_def bindS_def raiseS_def)
  show "convert_materials h cc scene OTHER root_object s
     = (Inl (AssertionError ''Unknown workflow type''), s)"
    by (simp add: convert_materials_def select_search_objs_def bindS_def raiseS_def)
  show "convert_scene h SKIP i scene t
     = (case convert_scene_before_layer_properties h SKIP i scene t of
          (Inl e, t1) \<Rightarrow> (Inl e, t1)
        | (Inr new_roots, t1) \<Rightarrow> (Inr (), t1))"
    by (rule convert_scene_SKIP)
  show "convert_scene h REGULAR i scene t
     = (case convert_scene_before_layer_properties h REGULAR i scene t of
          (Inl e, t1) \<Rightarrow> (Inl e, t1)
        | (Inr new_roots, t1) \<Rightarrow>
            (fst (do_convert_layer_properties h scene REGULAR new_roots (bpy t1)),
             t1\<lparr>calls := calls t1 @ [Call_do_convert_layer_properties scene REGULAR new_roots],
                bpy := snd (do_convert_layer_properties h scene REGULAR new_roots (bpy t1))\<rparr>))"
    by (rule convert_scene_layer_properties) simp
  show "convert_scene h BULK i scene t
     = (case convert_scene_before_layer_properties h BULK i scene t of
          (Inl e, t1) \<Rightarrow> (Inl e, t1)
        | (Inr new_roots, t1) \<Rightarrow>
            (fst (do_convert_layer_properties h scene BULK new_roots (bpy t1)),
             t1\<lparr>calls := calls t1 @ [Call_do_convert_layer_properties scene BULK new_roots],
                bpy := snd (do_convert_layer_properties h scene BULK new_roots (bpy t1))\<rparr>))"
    by (rule convert_scene_layer_properties) simp
  show "layer_properties_calls (calls (snd (do_249_conversion h SKIP t)))
     = layer_properties_calls (calls t)"
    by (rule do_249_conversion_SKIP_layer_calls)
next
  assume "runs t = 0"
  then show "do_249_conversion h workflow_type t
        = fold (\<lambda>(i, scene) (r, u).
                  case r of Inl e \<Rightarrow> (Inl e, u) | Inr x \<Rightarrow> convert_scene h workflow_type i scene u)
               (enumerate 1 (data_scenes h (bpy t))) (Inr (), t\<lparr>runs := 1\<rparr>)"
    by (simp add: do_249_conversion_def scenes_loop_fold)
next
  assume "(workflow_type = REGULAR \<or> workflow_type = BULK) \<and> runs t = 0
        \<and> fst (do_249_conversion h workflow_type t) = Inr ()"
  then show "layer_properties_calls (calls (snd (do_249_conversion h workflow_type t)))
          = layer_properties_calls (calls t)
            @ map (\<lambda>scene. (scene, workflow_type)) (data_scenes h (bpy t))"
    using do_249_conversion_layer_calls [of workflow_type t h] by blast
qed

lemma do_249_conversion_sample_ok:
  "fst (do_249_conversion sample_host REGULAR (session_init [])) = Inr ()"
  "fst (do_249_conversion sample_host BULK (session_init [])) = Inr ()"
  by (simp_all add: do_249_conversion_def session_init_def enumerate_eq_zip sample_host_def
      convert_scene_def bindS_def host_update_def host_call_def returnS_def raiseS_def
      convert_layer_properties_step_def sample_mesh_object_def)

lemma sample_modes_distinct:
  "tf_modes_of (sample_mtpoly 1 0) \<noteq> tf_modes_of (sample_mtpoly 5 0)"
  "tf_modes_of (sample_mtpoly 1 0) \<noteq> tf_modes_of (sample_mtpoly 129 0)"
  "tf_modes_of (sample_mtpoly 1 0) \<noteq> tf_modes_of (sample_mtpoly 17 0)"
  "tf_modes_of (sample_mtpoly 5 0) \<noteq> tf_modes_of (sample_mtpoly 129 0)"
  "tf_modes_of (sample_mtpoly 5 0) \<noteq> tf_modes_of (sample_mtpoly 17 0)"
  "tf_modes_of (sample_mtpoly 129 0) \<noteq> tf_modes_of (sample_mtpoly 17 0)"
  by (simp_all add: tf_modes_of_bit sample_mtpoly_def bit_numeral_simps)

lemma sample_mesh_object_groups:
  "get_tf_modes_from_ctypes sample_mesh_object
   = Inr [(tf_modes_of (sample_mtpoly 1 0), [0, 2]), (tf_modes_of (sample_mtpoly 5 0), [1])]"
  by (simp add: get_tf_modes_from_ctypes_def sample_mesh_object_def ptr_slice_def bindE_def
      sample_modes_distinct sample_modes_distinct [symmetric])

lemma convert_search_obj_sample:
  "convert_search_obj sample_host_2 sample_converter_constants scene root_object is_cockpit obj t
   = (Inr [obj], t\<lparr>bpy := bpy t @ [''materials.new'']\<rparr>)"
  by (simp add: convert_search_obj_def bindS_def host_new_def returnS_def sample_host_2_def
      sample_host_def sample_mesh_object_groups)

lemma converts_mesh_objects_of_sample:
  "bpy (snd (converts_mesh_objects_of sample_host_2 sample_converter_constants 0 0 [0, 1]
               (session_init [])))
   = [''materials.new'', ''materials.new'', ''materials.remove'']"
  "bpy (snd (converts_mesh_objects_of sample_host_2 sample_converter_constants 0 0 [0]
               (session_init [])))
   = [''materials.new'', ''materials.remove'']"
  by (simp_all add: converts_mesh_objects_of_def convert_search_obj_sample Let_def
      remove_unused_default_material_def bindS_def host_read_def host_update_def whenS_def
      session_init_def)
     (simp_all add: sample_host_2_def sample_host_def sample_mesh_object_def)

theorem workflow_type_selects_scope_witness:
  "((REGULAR = REGULAR \<or> REGULAR = BULK) \<and> runs (session_init ([] :: string list)) = 0
    \<and> fst (do_249_conversion sample_host REGULAR (session_init [])) = Inr ())
   \<and> layer_properties_calls (calls (snd (do_249_conversion sample_host REGULAR (session_init []))))
     = [(0, REGULAR)]
   \<and> ((BULK = REGULAR \<or> BULK = BULK) \<and> runs (session_init ([] :: string list)) = 0
    \<and> fst (do_249_conversion sample_host BULK (session_init [])) = Inr ())
   \<and> layer_properties_calls (calls (snd (do_249_conversion sample_host BULK (session_init []))))
     = [(0, BULK)]
   \<and> bpy (snd (convert_materials sample_host_2 sample_converter_constants 0 REGULAR 0
                  (session_init [])))
     = [''materials.new'', ''materials.new'', ''materials.remove'']
   \<and> bpy (snd (convert_materials sample_host_2 sample_converter_constants 0 BULK 0
                  (session_init [])))
     = [''materials.new'', ''materials.remove'']"
proof -
  note scope = workflow_type_selects_scope
  have r: "runs (session_init ([] :: string list)) = 0"
    by (simp add: session_init_def)
  have hr: "(REGULAR = REGULAR \<or> REGULAR = BULK) \<and> runs (session_init ([] :: string list)) = 0
      \<and> fst (do_249_conversion sample_host REGULAR (session_init [])) = Inr ()"
    using do_249_conversion_sample_ok(1) r by simp
  have hb: "(BULK = REGULAR \<or> BULK = BULK) \<and> runs (session_init ([] :: string list)) = 0
      \<and> fst (do_249_conversion sample_host BULK (session_init [])) = Inr ()"
    using do_249_conversion_sample_ok(2) r by simp
  have last: "P1 \<and> P2 \<and> P3 \<and> P4 \<and> P5 \<and> P6 \<and> P7 \<and> P8 \<and> P9 \<and> (H \<longrightarrow> C) \<Longrightarrow> H \<Longrightarrow> C"
    for P1 P2 P3 P4 P5 P6 P7 P8 P9 H C by blast
  have "layer_properties_calls (calls (snd (do_249_conversion sample_host REGULAR (session_init []))))
      = layer_properties_calls (calls (session_init ([] :: string list)))
        @ map (\<lambda>scene. (scene, REGULAR)) (data_scenes sample_host (bpy (session_init [])))"
    by (rule last [OF scope [where h = sample_host and workflow_type = REGULAR
          and t = "session_init []"] hr])
  then have cr: "layer_properties_calls (calls (snd (do_249_conversion sample_host REGULAR (session_init []))))
      = [(0, REGULAR)]"
    by (simp add: session_init_def sample_host_def)
  have "layer_properties_calls (calls (snd (do_249_conversion sample_host BULK (session_init []))))
      = layer_properties_calls (calls (session_init ([] :: string list)))
        @ map (\<lambda>scene. (scene, BULK)) (data_scenes sample_host (bpy (session_init [])))"
    by (rule last [OF scope [where h = sample_host and workflow_type = BULK
          and t = "session_init []"] hb])
  then have cb: "layer_properties_calls (calls (snd (do_249_conversion sample_host BULK (session_init []))))
      = [(0, BULK)]"
    by (simp add: session_init_def sample_host_def)
  have "convert_materials sample_host_2 sample_converter_constants 0 REGULAR 0 (session_init [])
      = converts_mesh_objects_of sample_host_2 sample_converter_constants 0 0
          (scene_objects sample_host_2 0 (bpy (session_init []))) (session_init [])"
    by (rule scope [where h = sample_host_2, THEN conjunct1])
  then have mr: "bpy (snd (convert_materials sample_host_2 sample_converter_constants 0 REGULAR 0
                  (session_init [])))
     = [''materials.new'', ''materials.new'', ''materials.remove'']"
    using converts_mesh_objects_of_sample(1) by (simp add: sample_host_2_def)
  have "convert_materials sample_host_2 sample_converter_constants 0 BULK 0 (session_init [])
      = converts_mesh_objects_of sample_host_2 sample_converter_constants 0 0
          (0 # get_all_children_recursive sample_host_2 0 0 (bpy (session_init [])))
          (session_init [])"
    by (rule scope [where h = sample_host_2, THEN conjunct2, THEN conjunct1])
  then have mb: "bpy (snd (convert_materials sample_host_2 sample_converter_constants 0 BULK 0
                  (session_init [])))
     = [''materials.new'', ''materials.remove'']"
    using converts_mesh_objects_of_sample(2) by (simp add: sample_host_2_def sample_host_def)
  from hr cr hb cb mr mb show ?thesis
    by blast
qed

lemma get_tf_modes_from_ctypes_groups:
  assumes "obj_type obj = ''MESH''"
    and "ptr_slice (mpoly (data obj)) (sint (totpoly (data obj))) = Inr mps"
    and "ptr_slice (mtpoly (data obj)) (sint (totpoly (data obj))) = Inr tps"
  shows "\<exists>d. get_tf_modes_from_ctypes obj = Inr d
     \<and> distinct (map fst d)
     \<and> set (map fst d) = tf_modes_of ` set tps"
  using get_tf_modes_from_ctypes_full [OF assms] by blast

lemma copy_obj_IndexError:
  "3 \<le> i \<Longrightarrow> fst (copy_obj h scene search_obj i s) = Inl IndexError"
  by (simp add: copy_obj_def bindS_def seqS_def host_new_def host_update_def raiseS_def)

lemma copy_obj_Inr:
  "i < 3 \<Longrightarrow> \<exists>new_obj. fst (copy_obj h scene search_obj i s) = Inr new_obj"
  by (simp add: copy_obj_def bindS_def seqS_def host_new_def host_update_def returnS_def)

lemma copy_objs_loop_IndexError:
  "col \<noteq> [] \<Longrightarrow> 3 < i + length col \<Longrightarrow>
   fst (copy_objs_loop h scene search_obj i col s) = Inl IndexError"
proof (induction col arbitrary: i s)
  case Nil
  then show ?case by simp
next
  case (Cons p rest)
  obtain tf_modes faces_idx where p: "p = (tf_modes, faces_idx)" by (cases p)
  obtain r s' where c: "copy_obj h scene search_obj i s = (r, s')"
    by (cases "copy_obj h scene search_obj i s")
  show ?case
  proof (cases "i < 3")
    case True
    with copy_obj_Inr [of i h scene search_obj s] c obtain new_obj where r: "r = Inr new_obj"
      by auto
    from Cons.prems True have "rest \<noteq> []" "3 < Suc i + length rest" by auto
    from Cons.IH [OF this, of s']
    obtain s'' where "copy_objs_loop h scene search_obj (Suc i) rest s' = (Inl IndexError, s'')"
      by (cases "copy_objs_loop h scene search_obj (Suc i) rest s'") simp
    then show ?thesis
      by (simp add: p c r)
  next
    case False
    with copy_obj_IndexError [of i h scene search_obj s] c have "r = Inl IndexError"
      by simp
    with c p show ?thesis by simp
  qed
qed

text \<open>
  Claim C1 does not hold of the code. For a mesh object whose polygons carry
  exactly two distinct combinations, the loop body of \<open>convert_materials\<close> creates
  the default material and does nothing else: no object is copied, no face is
  removed, no material is converted (the test is \<open>len(all_tf_modes) > 2\<close>). With
  more than three combinations the fourth \<open>copy_obj\<close> indexes the list of three
  name suffixes out of range and the conversion ends in an \<open>IndexError\<close>.
\<close>

theorem two_combinations_not_split:
  assumes "w' = snd (materials_new h (DEFAULT_MATERIAL_NAME cc) (bpy s))"
    and "obj_type (object_at h search_obj w') = ''MESH''"
    and "ptr_slice (mpoly (data (object_at h search_obj w')))
           (sint (totpoly (data (object_at h search_obj w')))) = Inr mps"
    and "ptr_slice (mtpoly (data (object_at h search_obj w')))
           (sint (totpoly (data (object_at h search_obj w')))) = Inr tps"
  shows "(card (tf_modes_of ` set tps) = 2 \<longrightarrow>
            convert_search_obj h cc scene root_object is_cockpit search_obj s
            = (Inr [search_obj], s\<lparr>bpy := w'\<rparr>))
       \<and> (card (tf_modes_of ` set tps) > 3 \<longrightarrow>
            fst (convert_search_obj h cc scene root_object is_cockpit search_obj s)
            = Inl IndexError)"
proof -
  from get_tf_modes_from_ctypes_groups [OF assms(2,3,4)]
  obtain d where d: "get_tf_modes_from_ctypes (object_at h search_obj w') = Inr d"
      "distinct (map fst d)" "set (map fst d) = tf_modes_of ` set tps"
    by blast
  have len: "length d = card (tf_modes_of ` set tps)"
    using distinct_card [OF d(2)] d(3) by simp
  have step: "convert_search_obj h cc scene root_object is_cockpit search_obj s
      = (if length d > 2 then
           bindS (host_read (\<lambda>w. length (scene_objects h scene w))) (\<lambda>pre_split_obj_count.
           bindS (copy_objs_loop h scene search_obj 0 d) (\<lambda>modes_to_faces_col.
           seqS (split_loop h cc scene root_object is_cockpit modes_to_faces_col)
           (returnS []))) (s\<lparr>bpy := w'\<rparr>)
         else (Inr [search_obj], s\<lparr>bpy := w'\<rparr>))"
    using d(1) assms(1)
    by (simp add: convert_search_obj_def bindS_def host_new_def returnS_def)
  show ?thesis
  proof (intro conjI impI)
    assume "card (tf_modes_of ` set tps) = 2"
    with len step show "convert_search_obj h cc scene root_object is_cockpit search_obj s
            = (Inr [search_obj], s\<lparr>bpy := w'\<rparr>)"
      by simp
  next
    assume "card (tf_modes_of ` set tps) > 3"
    with len have l: "3 < 0 + length d" and ne: "d \<noteq> []" by auto
    from copy_objs_loop_IndexError [OF ne l, of h scene search_obj "s\<lparr>bpy := w'\<rparr>"]
    obtain s'' where "copy_objs_loop h scene search_obj 0 d (s\<lparr>bpy := w'\<rparr>) = (Inl IndexError, s'')"
      by (cases "copy_objs_loop h scene search_obj 0 d (s\<lparr>bpy := w'\<rparr>)") simp
    with l show "fst (convert_search_obj h cc scene root_object is_cockpit search_obj s)
            = Inl IndexError"
      unfolding step by (simp add: bindS_def host_read_def)
  qed
qed

theorem two_combinations_not_split_witness:
  "card (tf_modes_of ` set [sample_mtpoly 1 0, sample_mtpoly 5 0, sample_mtpoly 1 0]) = 2
   \<and> convert_search_obj sample_host sample_converter_constants 0 0 False 0 (session_init [])
       = (Inr [0], (session_init [])\<lparr>bpy := [''materials.new'']\<rparr>)
   \<and> card (tf_modes_of ` set [sample_mtpoly 1 0, sample_mtpoly 5 0, sample_mtpoly 129 0,
                                sample_mtpoly 17 0]) > 3
   \<and> fst (convert_search_obj (sample_host\<lparr>object_at := \<lambda>obj w. sample_mesh_object_4\<rparr>)
             sample_converter_constants 0 0 False 0 (session_init []))
       = Inl IndexError"
proof -
  have c2: "card (tf_modes_of ` set [sample_mtpoly 1 0, sample_mtpoly 5 0, sample_mtpoly 1 0]) = 2"
    by (simp add: card_insert_if sample_modes_distinct sample_modes_distinct [symmetric])
  have c4: "card (tf_modes_of ` set [sample_mtpoly 1 0, sample_mtpoly 5 0, sample_mtpoly 129 0,
                                sample_mtpoly 17 0]) > 3"
    by (simp add: card_insert_if sample_modes_distinct sample_modes_distinct [symmetric])
  have "convert_search_obj sample_host sample_converter_constants 0 0 False 0 (session_init [])
       = (Inr [0], (session_init [])\<lparr>bpy := [''materials.new'']\<rparr>)"
    using c2
    by (rule two_combinations_not_split [where h = sample_host and cc = sample_converter_constants
          and s = "session_init []" and search_obj = 0
          and mps = "[sample_mpoly, sample_mpoly, sample_mpoly]"
          and tps = "[sample_mtpoly 1 0, sample_mtpoly 5 0, sample_mtpoly 1 0]",
          THEN conjunct1, THEN mp, rotated 4])
       (simp_all add: sample_host_def session_init_def sample_mesh_object_def ptr_slice_def)
  moreover
  have "fst (convert_search_obj (sample_host\<lparr>object_at := \<lambda>obj w. sample_mesh_object_4\<rparr>)
             sample_converter_constants 0 0 False 0 (session_init []))
       = Inl IndexError"
    using c4
    by (rule two_combinations_not_split
          [where h = "sample_host\<lparr>object_at := \<lambda>obj w. sample_mesh_object_4\<rparr>"
          and cc = sample_converter_constants
          and s = "session_init []" and search_obj = 0
          and w' = "[''materials.new'']"
          and mps = "[sample_mpoly, sample_mpoly, sample_mpoly, sample_mpoly]"
          and tps = "[sample_mtpoly 1 0, sample_mtpoly 5 0, sample_mtpoly 129 0, sample_mtpoly 17 0]",
          THEN conjunct2, THEN mp, rotated 4])
       (simp_all add: sample_host_def session_init_def sample_mesh_object_4_def ptr_slice_def)
  ultimately show ?thesis
    using c2 c4 by blast
qed


end
